theory Spec2Isabelle
  imports
    Main
    "HOL-Library.Word"
    "HOL-Library.Product_Lexorder"
    "HOL-Library.List_Lexorder"
begin

section \<open>Python values\<close>

text \<open>
  A Python \<open>str\<close> is a sequence of Unicode code points, and \<open>len\<close>, slicing and
  the pydantic length constraints count code points. A \<open>str\<close> is therefore a list of
  code points; \<open>py\<close> embeds an ASCII literal. Dictionary keys are always ASCII literals
  in \<open>main.py\<close> and are kept as Isabelle strings.
\<close>

type_synonym pystr = "nat list"

definition py :: "string \<Rightarrow> pystr" where
  "py s = map of_char s"

text \<open>
  A naive \<open>datetime\<close> is its tuple (year, month, day, hour, minute, second,
  microsecond); Python compares two of them as these tuples, lexicographically.
\<close>

type_synonym datetime = "nat \<times> nat \<times> nat \<times> nat \<times> nat \<times> nat \<times> nat"

text \<open>
  The values a stored document holds for the three fields \<open>main.py\<close> reads: nothing
  (\<open>None\<close>), a \<open>str\<close>, a \<open>datetime\<close> or a 12-byte \<open>bson.ObjectId\<close>.
\<close>

datatype pyval =
    PNone
  | PStr pystr
  | PDatetime datetime
  | PObjectId "96 word"

type_synonym document = "(string \<times> pyval) list"

text \<open>\<open>d.get(key, default)\<close> and \<open>d[key] = v\<close> on a dict.\<close>

definition get :: "document \<Rightarrow> string \<Rightarrow> pyval \<Rightarrow> pyval" where
  "get d key dflt = (case map_of d key of None \<Rightarrow> dflt | Some v \<Rightarrow> v)"

fun setitem :: "document \<Rightarrow> string \<Rightarrow> pyval \<Rightarrow> document" where
  "setitem [] key v = [(key, v)]"
| "setitem ((k, w) # d) key v = (if k = key then (k, v) # d else (k, w) # setitem d key v)"

text \<open>Truth value of an object in a condition.\<close>

fun truthy :: "pyval \<Rightarrow> bool" where
  "truthy PNone = False"
| "truthy (PStr s) = (s \<noteq> [])"
| "truthy (PDatetime t) = True"
| "truthy (PObjectId oid) = True"

subsection \<open>Formatting\<close>

text \<open>
  \<open>zpad k n\<close> is \<open>"%0kd" % n\<close> for a field that fits in \<open>k\<close> digits, which the
  \<open>datetime\<close> class guarantees for each of its fields. \<open>hexpad k n\<close> is the same in
  lower-case hexadecimal.
\<close>

fun zpad :: "nat \<Rightarrow> nat \<Rightarrow> pystr" where
  "zpad 0 n = []"
| "zpad (Suc k) n = zpad k (n div 10) @ [48 + n mod 10]"

definition hexdigit :: "nat \<Rightarrow> nat" where
  "hexdigit d = (if d < 10 then 48 + d else 87 + d)"

fun hexpad :: "nat \<Rightarrow> nat \<Rightarrow> pystr" where
  "hexpad 0 n = []"
| "hexpad (Suc k) n = hexpad k (n div 16) @ [hexdigit (n mod 16)]"

text \<open>
  \<open>datetime.isoformat(sep)\<close> of a naive datetime: \<open>YYYY-MM-DD\<close>, the separator,
  \<open>HH:MM:SS\<close>, and \<open>.ffffff\<close> only when the microsecond is not zero.
\<close>

fun isoformat_sep :: "nat \<Rightarrow> datetime \<Rightarrow> pystr" where
  "isoformat_sep sep (year, month, day, hour, minute, second, microsecond) =
     zpad 4 year @ py ''-'' @ zpad 2 month @ py ''-'' @ zpad 2 day @ [sep]
       @ zpad 2 hour @ py '':'' @ zpad 2 minute @ py '':'' @ zpad 2 second
       @ (if microsecond = 0 then [] else py ''.'' @ zpad 6 microsecond)"

definition isoformat :: "datetime \<Rightarrow> pystr" where
  "isoformat t = isoformat_sep 84 t"

text \<open>
  The field ranges the \<open>datetime\<close> constructor enforces (the day bound is the
  largest over all months).
\<close>

fun valid_datetime :: "datetime \<Rightarrow> bool" where
  "valid_datetime (year, month, day, hour, minute, second, microsecond) =
     (1 \<le> year \<and> year \<le> 9999 \<and> 1 \<le> month \<and> month \<le> 12 \<and> 1 \<le> day \<and> day \<le> 31
      \<and> hour \<le> 23 \<and> minute \<le> 59 \<and> second \<le> 59 \<and> microsecond \<le> 999999)"

text \<open>\<open>str(v)\<close>.\<close>

fun str :: "pyval \<Rightarrow> pystr" where
  "str PNone = py ''None''"
| "str (PStr s) = s"
| "str (PDatetime t) = isoformat_sep 32 t"
| "str (PObjectId oid) = hexpad 24 (unat oid)"

section \<open>Exceptions and their HTTP status\<close>

text \<open>
  \<open>RequestValidationError\<close> is what FastAPI raises when a declared request model or
  query parameter fails its constraints, before the handler body runs; it answers 422.
  \<open>ResponseValidationError\<close> is raised when the handler's return value does not fit
  the declared \<open>response_model\<close>. An \<open>HTTPException\<close> answers with its own status
  code, every other exception that leaves a handler with 500.
\<close>

datatype exn =
    RequestValidationError
  | ResponseValidationError
  | HTTPException nat pystr
  | ValidationError
  | AttributeError
  | InvalidId

fun status_code :: "exn \<Rightarrow> nat" where
  "status_code RequestValidationError = 422"
| "status_code (HTTPException code detail) = code"
| "status_code e = 500"

text \<open>The HTTP status of a response: 200 for a returned value.\<close>

definition status :: "exn + 'a \<Rightarrow> nat" where
  "status r = (case r of Inl e \<Rightarrow> status_code e | Inr v \<Rightarrow> 200)"

section \<open>The document store\<close>

text \<open>
  \<open>db\<close> of \<open>database.py\<close> is either \<open>None\<close> or a handle on the database. The
  handle is modelled by what \<open>main.py\<close> asks of it: its \<open>name\<close> attribute (absent
  when \<open>hasattr\<close> is false), the outcome of \<open>list_collection_names()\<close> (the names,
  or the exception the driver raises), the documents of the collection \<open>"wish"\<close> in
  their natural order, and the identifier the store assigns to the next inserted
  document.
\<close>

datatype driver_exn =
    ImportError pystr
  | Exception pystr

fun str_exn :: "driver_exn \<Rightarrow> pystr" where
  "str_exn (ImportError m) = m"
| "str_exn (Exception m) = m"

record mongo_db =
  name :: "pystr option"
  list_collection_names :: "driver_exn + pystr list"
  wish :: "document list"
  next_oid :: "96 word"

text \<open>
  \<open>bson.ObjectId(s)\<close> for a \<open>str\<close>: the 12 bytes written as 24 hexadecimal digits,
  \<open>InvalidId\<close> for any other string.
\<close>

definition is_hex :: "nat \<Rightarrow> bool" where
  "is_hex c = ((48 \<le> c \<and> c \<le> 57) \<or> (65 \<le> c \<and> c \<le> 70) \<or> (97 \<le> c \<and> c \<le> 102))"

definition hexval :: "nat \<Rightarrow> nat" where
  "hexval c = (if c \<le> 57 then c - 48 else if c \<le> 70 then c - 55 else c - 87)"

definition fromhex :: "pystr \<Rightarrow> nat" where
  "fromhex s = foldl (\<lambda>a c. 16 * a + hexval c) 0 s"

definition ObjectId :: "pystr \<Rightarrow> exn + 96 word" where
  "ObjectId s =
     (if length s = 24 \<and> list_all is_hex s then Inr (word_of_nat (fromhex s))
      else Inl InvalidId)"

text \<open>
  \<open>collection.find_one({"_id": v})\<close>: the first document whose \<open>_id\<close> is \<open>v\<close>, or
  \<open>None\<close>.
\<close>

definition find_one :: "document list \<Rightarrow> pyval \<Rightarrow> document option" where
  "find_one coll v = List.find (\<lambda>doc. get doc ''_id'' PNone = v) coll"

text \<open>
  The store compares values of different types by type first (null, then strings, then
  object identifiers, then dates) and values of one type by their own order; a missing
  sort field counts as null.
\<close>

fun bson_rank :: "pyval \<Rightarrow> nat" where
  "bson_rank PNone = 0"
| "bson_rank (PStr s) = 1"
| "bson_rank (PObjectId oid) = 2"
| "bson_rank (PDatetime t) = 3"

fun bson_le :: "pyval \<Rightarrow> pyval \<Rightarrow> bool" where
  "bson_le (PStr a) (PStr b) = (a \<le> b)"
| "bson_le (PObjectId a) (PObjectId b) = (a \<le> b)"
| "bson_le (PDatetime a) (PDatetime b) = (a \<le> b)"
| "bson_le a b = (bson_rank a \<le> bson_rank b)"

text \<open>
  \<open>cursor.sort(key, -1)\<close>: descending by the field \<open>key\<close>. Documents with equal sort
  keys keep their natural order.
\<close>

fun insert_desc :: "string \<Rightarrow> document \<Rightarrow> document list \<Rightarrow> document list" where
  "insert_desc key doc [] = [doc]"
| "insert_desc key doc (x # xs) =
     (if bson_le (get x key PNone) (get doc key PNone) then doc # x # xs
      else x # insert_desc key doc xs)"

fun sort_desc :: "string \<Rightarrow> document list \<Rightarrow> document list" where
  "sort_desc key [] = []"
| "sort_desc key (doc # docs) = insert_desc key doc (sort_desc key docs)"

text \<open>\<open>cursor.limit(n)\<close>: the first \<open>|n|\<close> documents; a limit of 0 is no limit.\<close>

definition limit_cursor :: "int \<Rightarrow> document list \<Rightarrow> document list" where
  "limit_cursor n docs = (if n = 0 then docs else take (nat \<bar>n\<bar>) docs)"

text \<open>
  Modelled from the spec: \<open>create_document\<close> of \<open>database.py\<close>, which is not among the
  sources. Section 4.2, step 3: insert a new document containing the text and a
  server-assigned creation timestamp; the store assigns the unique identifier. It
  returns that identifier, as the string \<open>create_wish\<close> gives back to
  \<open>bson.ObjectId\<close>. \<open>now\<close> is the server clock at the insert.
\<close>

definition create_document :: "mongo_db \<Rightarrow> datetime \<Rightarrow> document \<Rightarrow> pystr \<times> mongo_db" where
  "create_document d now data =
     (let oid = next_oid d;
          doc = setitem (setitem data ''created_at'' (PDatetime now)) ''_id'' (PObjectId oid)
      in (str (PObjectId oid), d\<lparr>wish := wish d @ [doc], next_oid := next_oid d + 1\<rparr>))"

text \<open>
  Modelled from the spec: the schema \<open>Wish\<close> of \<open>schemas.py\<close>, which is not among the
  sources. Section 4.1: accept if \<open>1 \<le> length(text) \<le> 500\<close>, otherwise fail with a
  \<open>ValidationError\<close>.
\<close>

definition Wish :: "pystr \<Rightarrow> exn + pystr" where
  "Wish t = (if 1 \<le> length t \<and> length t \<le> 500 then Inr t else Inl ValidationError)"

section \<open>The wish API\<close>

text \<open>
  \<open>WishCreate\<close>: \<open>text: str = Field(..., min_length=1, max_length=500)\<close>. Building
  the model from a submitted text fails with a \<open>ValidationError\<close> outside these bounds.
\<close>

definition WishCreate :: "pystr \<Rightarrow> exn + pystr" where
  "WishCreate t =
     (if length t < 1 then Inl ValidationError
      else if 500 < length t then Inl ValidationError
      else Inr t)"

text \<open>
  \<open>WishOut\<close>, the declared response model: three \<open>str\<close> fields. A returned dict fits
  it when each of the three keys holds a \<open>str\<close>.
\<close>

record WishOut =
  id' :: pystr
  "text" :: pystr
  created_at :: pystr

definition response_model :: "document \<Rightarrow> exn + WishOut" where
  "response_model r =
     (case (map_of r ''id'', map_of r ''text'', map_of r ''created_at'') of
        (Some (PStr i), Some (PStr t), Some (PStr c)) \<Rightarrow>
          Inr \<lparr>id' = i, text = t, created_at = c\<rparr>
      | _ \<Rightarrow> Inl ResponseValidationError)"

text \<open>\<open>v.isoformat()\<close>: only a \<open>datetime\<close> has the method.\<close>

fun isoformat_method :: "pyval \<Rightarrow> exn + pystr" where
  "isoformat_method (PDatetime t) = Inr (isoformat t)"
| "isoformat_method v = Inl AttributeError"

text \<open>
  The dict built from a stored document, written out twice in \<open>main.py\<close> (lines 98 to
  102 in \<open>create_wish\<close>, lines 116 to 120 in \<open>list_wishes\<close>) with the same three
  entries. \<open>utcnow\<close> is what \<open>datetime.utcnow()\<close> returns if it is called.
\<close>

definition wish_dict :: "datetime \<Rightarrow> document \<Rightarrow> exn + document" where
  "wish_dict utcnow doc =
     (case (if truthy (get doc ''created_at'' PNone)
            then isoformat_method (get doc ''created_at'' PNone)
            else Inr (isoformat utcnow)) of
        Inl e \<Rightarrow> Inl e
      | Inr c \<Rightarrow>
          Inr [(''id'', PStr (str (get doc ''_id'' PNone))),
               (''text'', get doc ''text'' (PStr [])),
               (''created_at'', PStr c)])"

text \<open>
  A clock gives the successive readings of the server time during one request:
  \<open>clock 0\<close> is the first reading taken, \<open>clock 1\<close> the second, and so on.
\<close>

type_synonym clock = "nat \<Rightarrow> datetime"

text \<open>
  \<open>create_wish\<close>, lines 94 to 102: the re-read of the inserted document by its
  identifier and the mapping of what was found.
\<close>

definition create_wish_reread :: "mongo_db \<Rightarrow> datetime \<Rightarrow> pystr \<Rightarrow> exn + document" where
  "create_wish_reread d utcnow inserted_id =
     (case ObjectId inserted_id of
        Inl e \<Rightarrow> Inl e
      | Inr oid \<Rightarrow>
          (case find_one (wish d) (PObjectId oid) of
             None \<Rightarrow> Inl (HTTPException 500 (py ''Failed to create wish''))
           | Some doc \<Rightarrow>
               if doc = [] then Inl (HTTPException 500 (py ''Failed to create wish''))
               else wish_dict utcnow doc))"

text \<open>
  \<open>create_wish\<close>, the handler body, on the global \<open>db\<close> and a payload's text. It
  returns the handler's outcome and \<open>db\<close> as the handler leaves it.
\<close>

definition create_wish ::
  "mongo_db option \<Rightarrow> clock \<Rightarrow> pystr \<Rightarrow> (exn + document) \<times> mongo_db option" where
  "create_wish db clock payload_text =
     (case db of
        None \<Rightarrow> (Inl (HTTPException 500 (py ''Database not available'')), db)
      | Some d \<Rightarrow>
          (case Wish payload_text of
             Inl e \<Rightarrow> (Inl e, db)
           | Inr _ \<Rightarrow>
               (let (inserted_id, d') = create_document d (clock 0) [(''text'', PStr payload_text)]
                in (create_wish_reread d' (clock 1) inserted_id, Some d'))))"

text \<open>
  \<open>POST /api/wishes\<close>: FastAPI builds the \<open>WishCreate\<close> payload from the request
  body and rejects the request when that fails; then the handler runs; then its return
  value is checked against \<open>WishOut\<close>.
\<close>

definition post_api_wishes ::
  "mongo_db option \<Rightarrow> clock \<Rightarrow> pystr \<Rightarrow> (exn + WishOut) \<times> mongo_db option" where
  "post_api_wishes db clock t =
     (case WishCreate t of
        Inl e \<Rightarrow> (Inl RequestValidationError, db)
      | Inr payload_text \<Rightarrow>
          (case create_wish db clock payload_text of
             (Inl e, db') \<Rightarrow> (Inl e, db')
           | (Inr r, db') \<Rightarrow> (response_model r, db')))"

text \<open>
  The loop of \<open>list_wishes\<close>, lines 113 to 121, over the documents the cursor yields.
  \<open>k\<close> counts the clock readings taken so far: \<open>datetime.utcnow()\<close> is called for a
  document only when its \<open>created_at\<close> is not truthy.
\<close>

fun for_doc_in_cursor ::
  "clock \<Rightarrow> nat \<Rightarrow> document list \<Rightarrow> document list \<Rightarrow> exn + document list" where
  "for_doc_in_cursor clock k [] wishes = Inr wishes"
| "for_doc_in_cursor clock k (doc # cursor) wishes =
     (case wish_dict (clock k) doc of
        Inl e \<Rightarrow> Inl e
      | Inr w \<Rightarrow>
          for_doc_in_cursor clock
            (if truthy (get doc ''created_at'' PNone) then k else Suc k)
            cursor (wishes @ [w]))"

text \<open>\<open>list_wishes\<close>, the handler body.\<close>

definition list_wishes ::
  "mongo_db option \<Rightarrow> clock \<Rightarrow> int \<Rightarrow> (exn + document list) \<times> mongo_db option" where
  "list_wishes db clock limit =
     (case db of
        None \<Rightarrow> (Inl (HTTPException 500 (py ''Database not available'')), db)
      | Some d \<Rightarrow>
          (let cursor = limit_cursor limit (sort_desc ''created_at'' (wish d))
           in (for_doc_in_cursor clock 0 cursor [], db)))"

text \<open>
  The query parameter \<open>limit: int = Query(default=60, ge=1, le=200)\<close>; \<open>None\<close> is a
  request without the parameter.
\<close>

definition Query_limit :: "int option \<Rightarrow> exn + int" where
  "Query_limit p =
     (case p of
        None \<Rightarrow> Inr 60
      | Some n \<Rightarrow> if 1 \<le> n \<and> n \<le> 200 then Inr n else Inl RequestValidationError)"

text \<open>\<open>response_model=List[WishOut]\<close>: every element must fit \<open>WishOut\<close>.\<close>

fun response_model_list :: "document list \<Rightarrow> exn + WishOut list" where
  "response_model_list [] = Inr []"
| "response_model_list (r # rs) =
     (case response_model r of
        Inl e \<Rightarrow> Inl e
      | Inr w \<Rightarrow> (case response_model_list rs of Inl e \<Rightarrow> Inl e | Inr ws \<Rightarrow> Inr (w # ws)))"

text \<open>\<open>GET /api/wishes\<close>: the query parameter is checked, then the handler runs.\<close>

definition get_api_wishes ::
  "mongo_db option \<Rightarrow> clock \<Rightarrow> int option \<Rightarrow> (exn + WishOut list) \<times> mongo_db option" where
  "get_api_wishes db clock p =
     (case Query_limit p of
        Inl e \<Rightarrow> (Inl e, db)
      | Inr limit \<Rightarrow>
          (case list_wishes db clock limit of
             (Inl e, db') \<Rightarrow> (Inl e, db')
           | (Inr rs, db') \<Rightarrow> (response_model_list rs, db')))"

section \<open>The diagnostics endpoint\<close>

text \<open>
  The response dict of \<open>test_database\<close> has six fixed keys. The marks in its string
  literals are the code points U+2705 (check mark), U+274C (cross mark), and U+26A0
  followed by U+FE0F (warning sign).
\<close>

record diagnostics =
  backend :: pystr
  database :: pystr
  database_url :: "pystr option"
  database_name :: "pystr option"
  connection_status :: pystr
  collections :: "pystr list"

definition check_mark :: pystr where
  "check_mark = [9989]"

definition cross_mark :: pystr where
  "cross_mark = [10060]"

definition warning_sign :: pystr where
  "warning_sign = [9888, 65039]"

text \<open>
  A \<open>try\<close> block is a function from the response so far to the exception that leaves
  the block, if any, and the response as mutated up to that point.
\<close>

text \<open>Lines 52 to 57: the inner \<open>try\<close> with its handler \<open>except Exception as e\<close>.\<close>

definition list_collections_body ::
  "mongo_db \<Rightarrow> diagnostics \<Rightarrow> driver_exn option \<times> diagnostics" where
  "list_collections_body d response =
     (case list_collection_names d of
        Inl e \<Rightarrow> (Some e, response)
      | Inr names \<Rightarrow>
          (None, response\<lparr>collections := take 10 names,
                           database := check_mark @ py '' Connected & Working''\<rparr>))"

definition list_collections_try ::
  "mongo_db \<Rightarrow> diagnostics \<Rightarrow> driver_exn option \<times> diagnostics" where
  "list_collections_try d response =
     (case list_collections_body d response of
        (None, response') \<Rightarrow> (None, response')
      | (Some e, response') \<Rightarrow>
          (None, response'\<lparr>database :=
             warning_sign @ py ''  Connected but Error: '' @ take 50 (str_exn e)\<rparr>))"

text \<open>Lines 46 to 59: the body of the outer \<open>try\<close>.\<close>

definition database_body ::
  "mongo_db option \<Rightarrow> diagnostics \<Rightarrow> driver_exn option \<times> diagnostics" where
  "database_body db response =
     (case db of
        Some d \<Rightarrow>
          list_collections_try d
            (response\<lparr>database := check_mark @ py '' Available'',
                       database_url := Some (check_mark @ py '' Configured''),
                       database_name :=
                         Some (case name d of Some n \<Rightarrow> n
                               | None \<Rightarrow> check_mark @ py '' Connected''),
                       connection_status := py ''Connected''\<rparr>)
      | None \<Rightarrow>
          (None, response\<lparr>database := warning_sign @ py ''  Available but not initialized''\<rparr>))"

text \<open>
  Lines 45 to 64: the outer \<open>try\<close> with \<open>except ImportError\<close> and then
  \<open>except Exception as e\<close>.
\<close>

definition database_try ::
  "mongo_db option \<Rightarrow> diagnostics \<Rightarrow> driver_exn option \<times> diagnostics" where
  "database_try db response =
     (case database_body db response of
        (None, response') \<Rightarrow> (None, response')
      | (Some (ImportError m), response') \<Rightarrow>
          (None, response'\<lparr>database :=
             cross_mark @ py '' Database module not found (run enable-database first)''\<rparr>)
      | (Some (Exception m), response') \<Rightarrow>
          (None, response'\<lparr>database := cross_mark @ py '' Error: '' @ take 50 m\<rparr>))"

text \<open>\<open>os.getenv(key)\<close> in a condition: set and not empty.\<close>

definition getenv_truthy :: "(string \<Rightarrow> pystr option) \<Rightarrow> string \<Rightarrow> bool" where
  "getenv_truthy getenv key = (case getenv key of None \<Rightarrow> False | Some v \<Rightarrow> v \<noteq> [])"

text \<open>
  \<open>test_database\<close> on the global \<open>db\<close> and the process environment: the exception
  that leaves the handler, or the response it returns.
\<close>

definition test_database ::
  "mongo_db option \<Rightarrow> (string \<Rightarrow> pystr option) \<Rightarrow> driver_exn + diagnostics" where
  "test_database db getenv =
     (let response =
            \<lparr>backend = check_mark @ py '' Running'',
             database = cross_mark @ py '' Not Available'',
             database_url = None,
             database_name = None,
             connection_status = py ''Not Connected'',
             collections = []\<rparr>
      in case database_try db response of
           (Some e, response') \<Rightarrow> Inl e
         | (None, response') \<Rightarrow>
             Inr (response'\<lparr>database_url :=
                     Some (if getenv_truthy getenv ''DATABASE_URL'' then check_mark @ py '' Set''
                           else cross_mark @ py '' Not Set''),
                   database_name :=
                     Some (if getenv_truthy getenv ''DATABASE_NAME'' then check_mark @ py '' Set''
                           else cross_mark @ py '' Not Set'')\<rparr>))"

section \<open>Example states\<close>

text \<open>
  Two clocks, a minute apart, and four stored documents: two complete ones, one without
  \<open>created_at\<close> and one without \<open>text\<close>.
\<close>

definition clock_a :: clock where
  "clock_a k = (2026, 11, 4, 12, 30, 0, Suc k)"

definition clock_b :: clock where
  "clock_b k = (2026, 11, 4, 12, 31, 0, Suc k)"

definition doc_first :: document where
  "doc_first =
     [(''_id'', PObjectId 1), (''text'', PStr (py ''first'')),
      (''created_at'', PDatetime (2020, 1, 1, 0, 0, 0, 0))]"

definition doc_second :: document where
  "doc_second =
     [(''_id'', PObjectId 2), (''text'', PStr (py ''second'')),
      (''created_at'', PDatetime (2021, 6, 15, 8, 5, 9, 250000))]"

definition doc_undated :: document where
  "doc_undated = [(''_id'', PObjectId 3), (''text'', PStr (py ''third''))]"

definition doc_untexted :: document where
  "doc_untexted =
     [(''_id'', PObjectId 4), (''created_at'', PDatetime (2022, 3, 9, 23, 59, 59, 0))]"

definition empty_db :: mongo_db where
  "empty_db =
     \<lparr>name = Some (py ''wishes''), list_collection_names = Inr [], wish = [], next_oid = 7\<rparr>"

definition dated_db :: mongo_db where
  "dated_db =
     \<lparr>name = Some (py ''wishes''), list_collection_names = Inr [py ''wish''],
      wish = [doc_first, doc_second, doc_untexted], next_oid = 5\<rparr>"

definition mixed_db :: mongo_db where
  "mixed_db =
     \<lparr>name = Some (py ''wishes''), list_collection_names = Inr [py ''wish''],
      wish = [doc_first, doc_undated, doc_second], next_oid = 5\<rparr>"

definition broken_db :: mongo_db where
  "broken_db =
     \<lparr>name = None, list_collection_names = Inl (Exception (py ''connection refused'')),
      wish = [], next_oid = 0\<rparr>"

definition no_env :: "string \<Rightarrow> pystr option" where
  "no_env key = None"

text \<open>The records these documents are listed as.\<close>

definition out_first :: WishOut where
  "out_first =
     \<lparr>id' = py ''000000000000000000000001'', text = py ''first'',
      created_at = py ''2020-01-01T00:00:00''\<rparr>"

definition out_second :: WishOut where
  "out_second =
     \<lparr>id' = py ''000000000000000000000002'', text = py ''second'',
      created_at = py ''2021-06-15T08:05:09.250000''\<rparr>"

definition out_untexted :: WishOut where
  "out_untexted =
     \<lparr>id' = py ''000000000000000000000004'', text = [],
      created_at = py ''2022-03-09T23:59:59''\<rparr>"

definition out_undated_a :: WishOut where
  "out_undated_a =
     \<lparr>id' = py ''000000000000000000000003'', text = py ''third'',
      created_at = py ''2026-11-04T12:30:00.000001''\<rparr>"

definition out_undated_b :: WishOut where
  "out_undated_b =
     \<lparr>id' = py ''000000000000000000000003'', text = py ''third'',
      created_at = py ''2026-11-04T12:31:00.000001''\<rparr>"

section \<open>Auxiliary lemmas\<close>

subsection \<open>Identifiers, dicts and validators\<close>

lemma hexval_hexdigit: "d < 16 \<Longrightarrow> hexval (hexdigit d) = d"
  by (simp add: hexval_def hexdigit_def)

lemma is_hex_hexdigit: "d < 16 \<Longrightarrow> is_hex (hexdigit d)"
  by (simp add: is_hex_def hexdigit_def)

lemma length_hexpad: "length (hexpad k n) = k"
  by (induction k arbitrary: n) simp_all

lemma list_all_hexpad: "list_all is_hex (hexpad k n)"
  by (induction k arbitrary: n) (simp_all add: is_hex_hexdigit)

lemma foldl_hexpad:
  "foldl (\<lambda>a c. 16 * a + hexval c) acc (hexpad k n) = acc * 16 ^ k + n mod 16 ^ k"
proof (induction k arbitrary: n)
  case 0
  show ?case by simp
next
  case (Suc k)
  have "n mod (16 * 16 ^ k) = 16 * (n div 16 mod 16 ^ k) + n mod 16"
    by (rule mod_mult2_eq)
  moreover have "foldl (\<lambda>a c. 16 * a + hexval c) acc (hexpad (Suc k) n) =
      16 * (acc * 16 ^ k + n div 16 mod 16 ^ k) + n mod 16"
    by (simp add: Suc hexval_hexdigit)
  ultimately show ?case
    by (simp add: algebra_simps)
qed

lemma fromhex_hexpad: "fromhex (hexpad k n) = n mod 16 ^ k"
  by (simp add: fromhex_def foldl_hexpad)

lemma ObjectId_str: "ObjectId (str (PObjectId oid)) = Inr oid"
proof -
  have "unat oid < 2 ^ 96"
    using unsigned_less [of oid] by simp
  then have "unat oid mod 16 ^ 24 = unat oid"
    by simp
  then show ?thesis
    by (simp add: ObjectId_def length_hexpad list_all_hexpad fromhex_hexpad)
qed




lemma WishCreate_Inr: "1 \<le> length t \<Longrightarrow> length t \<le> 500 \<Longrightarrow> WishCreate t = Inr t"
  by (cases t) (simp_all add: WishCreate_def)

lemma WishCreate_Inl: "length t = 0 \<or> 500 < length t \<Longrightarrow> WishCreate t = Inl ValidationError"
  by (auto simp: WishCreate_def)

lemma Wish_Inr: "1 \<le> length t \<Longrightarrow> length t \<le> 500 \<Longrightarrow> Wish t = Inr t"
  by (simp add: Wish_def)

lemma ObjectId_error: "ObjectId s = Inl e \<Longrightarrow> e = InvalidId"
  by (simp add: ObjectId_def split: if_splits)

lemma isoformat_method_error: "isoformat_method v = Inl e \<Longrightarrow> e = AttributeError"
  by (cases v) simp_all

lemma wish_dict_error: "wish_dict now doc = Inl e \<Longrightarrow> e = AttributeError"
  by (auto simp: wish_dict_def split: if_splits sum.splits dest: isoformat_method_error)

lemma create_wish_reread_error:
  "create_wish_reread d now s = Inl e \<Longrightarrow>
     e = InvalidId \<or> e = AttributeError \<or> e = HTTPException 500 (py ''Failed to create wish'')"
  by (auto simp: create_wish_reread_def split: sum.splits option.splits if_splits
      dest: wish_dict_error ObjectId_error)

lemma create_wish_valid_error:
  assumes "1 \<le> length t" "length t \<le> 500" "fst (create_wish db clock t) = Inl e"
  shows "e \<noteq> RequestValidationError \<and> e \<noteq> ValidationError"
proof (cases db)
  case None
  with assms show ?thesis by (auto simp: create_wish_def)
next
  case (Some d)
  obtain i d' where cd: "create_document d (clock 0) [(''text'', PStr t)] = (i, d')"
    by (cases "create_document d (clock 0) [(''text'', PStr t)]")
  from assms Some cd have "create_wish_reread d' (clock 1) i = Inl e"
    by (simp add: create_wish_def Wish_Inr)
  from create_wish_reread_error [OF this] show ?thesis by auto
qed

lemma response_model_error: "response_model r = Inl e \<Longrightarrow> e = ResponseValidationError"
  by (auto simp: response_model_def split: option.splits pyval.splits)

subsection \<open>The mapping and the loop\<close>

lemma wish_dict_undated:
  "\<not> truthy (get doc ''created_at'' PNone) \<Longrightarrow>
     wish_dict now doc =
       Inr [(''id'', PStr (str (get doc ''_id'' PNone))), (''text'', get doc ''text'' (PStr [])),
            (''created_at'', PStr (isoformat now))]"
  by (simp add: wish_dict_def)

lemma wish_dict_dated:
  "get doc ''created_at'' PNone = PDatetime t \<Longrightarrow>
     wish_dict now doc =
       Inr [(''id'', PStr (str (get doc ''_id'' PNone))), (''text'', get doc ''text'' (PStr [])),
            (''created_at'', PStr (isoformat t))]"
  by (simp add: wish_dict_def)

lemma wish_dict_truthy: "truthy (get doc ''created_at'' PNone) \<Longrightarrow> wish_dict now doc = wish_dict now' doc"
  by (simp add: wish_dict_def)

lemma for_doc_in_cursor_append:
  "for_doc_in_cursor clock k cursor wishes = Inr rs \<Longrightarrow>
     \<exists>ws. rs = wishes @ ws \<and> length ws = length cursor"
proof (induction cursor arbitrary: k wishes)
  case Nil
  then show ?case by simp
next
  case (Cons doc cursor)
  from Cons.prems obtain w where w: "wish_dict (clock k) doc = Inr w"
    by (auto split: sum.splits)
  let ?k = "if truthy (get doc ''created_at'' PNone) then k else Suc k"
  from Cons.prems w have "for_doc_in_cursor clock ?k cursor (wishes @ [w]) = Inr rs"
    by simp
  from Cons.IH [OF this] obtain ws where "rs = (wishes @ [w]) @ ws" "length ws = length cursor"
    by blast
  then have "rs = wishes @ (w # ws) \<and> length (w # ws) = length (doc # cursor)"
    by simp
  then show ?case by blast
qed

lemma for_doc_in_cursor_length:
  "for_doc_in_cursor clock k cursor [] = Inr rs \<Longrightarrow> length rs = length cursor"
  by (auto dest: for_doc_in_cursor_append)

lemma for_doc_in_cursor_nth:
  "for_doc_in_cursor clock k cursor wishes = Inr rs \<Longrightarrow> i < length cursor \<Longrightarrow>
     wish_dict
       (clock (k + length (filter (\<lambda>d. \<not> truthy (get d ''created_at'' PNone)) (take i cursor))))
       (cursor ! i) = Inr (rs ! (length wishes + i))"
proof (induction cursor arbitrary: k wishes i)
  case Nil
  then show ?case by simp
next
  case (Cons doc cursor)
  from Cons.prems obtain w where w: "wish_dict (clock k) doc = Inr w"
    by (auto split: sum.splits)
  let ?k = "if truthy (get doc ''created_at'' PNone) then k else Suc k"
  from Cons.prems w have rest: "for_doc_in_cursor clock ?k cursor (wishes @ [w]) = Inr rs"
    by simp
  show ?case
  proof (cases i)
    case 0
    from for_doc_in_cursor_append [OF rest] obtain ws where "rs = (wishes @ [w]) @ ws"
      by blast
    then have "rs ! length wishes = w"
      by (simp add: nth_append)
    with w 0 show ?thesis by simp
  next
    case (Suc j)
    with Cons.prems have "j < length cursor" by simp
    from Cons.IH [OF rest this] Suc show ?thesis
      by (simp split: if_splits)
  qed
qed

lemma for_doc_in_cursor_succeeds:
  "\<forall>doc\<in>set cursor. \<not> truthy (get doc ''created_at'' PNone)
       \<or> (\<exists>t. get doc ''created_at'' PNone = PDatetime t) \<Longrightarrow>
     \<exists>rs. for_doc_in_cursor clock k cursor wishes = Inr rs"
proof (induction cursor arbitrary: k wishes)
  case Nil
  then show ?case by simp
next
  case (Cons doc cursor)
  then obtain w where "wish_dict (clock k) doc = Inr w"
    by (auto simp: wish_dict_undated wish_dict_dated)
  with Cons show ?case by simp
qed

lemma for_doc_in_cursor_clock:
  "\<forall>doc\<in>set cursor. truthy (get doc ''created_at'' PNone) \<Longrightarrow>
     for_doc_in_cursor clock k cursor wishes = for_doc_in_cursor clock' k' cursor wishes"
proof (induction cursor arbitrary: wishes)
  case Nil
  then show ?case by simp
next
  case (Cons doc cursor)
  then have "wish_dict (clock k) doc = wish_dict (clock' k') doc"
    by (simp add: wish_dict_truthy)
  with Cons show ?case by (simp split: sum.splits)
qed

lemma response_model_list_all2:
  "response_model_list rs = Inr ws \<Longrightarrow> list_all2 (\<lambda>r w. response_model r = Inr w) rs ws"
proof (induction rs arbitrary: ws)
  case Nil
  then show ?case by simp
next
  case (Cons r rs)
  then show ?case
    by (auto split: sum.splits)
qed

lemma response_model_list_succeeds:
  "\<forall>r\<in>set rs. \<exists>w. response_model r = Inr w \<Longrightarrow> \<exists>ws. response_model_list rs = Inr ws"
proof (induction rs)
  case Nil
  then show ?case by simp
next
  case (Cons r rs)
  then show ?case by auto
qed

lemma response_model_wish_dict:
  "wish_dict now doc = Inr r \<Longrightarrow> get doc ''text'' (PStr []) = PStr s \<Longrightarrow>
     response_model r =
       Inr \<lparr>id' = str (get doc ''_id'' PNone), text = s,
            created_at = (case get r ''created_at'' PNone of PStr c \<Rightarrow> c | _ \<Rightarrow> [])\<rparr>"
  by (auto simp: wish_dict_def response_model_def get_def split: sum.splits)


subsection \<open>Sorting and limiting\<close>

lemma bson_le_total: "bson_le a b \<or> bson_le b a"
  by (cases a; cases b) auto

lemma bson_le_trans: "bson_le a b \<Longrightarrow> bson_le b c \<Longrightarrow> bson_le a c"
  by (cases a; cases b; cases c) auto

lemma set_insert_desc: "set (insert_desc key doc xs) = insert doc (set xs)"
  by (induction xs) auto

lemma length_insert_desc: "length (insert_desc key doc xs) = Suc (length xs)"
  by (induction xs) auto

lemma set_sort_desc: "set (sort_desc key docs) = set docs"
  by (induction docs) (auto simp: set_insert_desc)

lemma length_sort_desc: "length (sort_desc key docs) = length docs"
  by (induction docs) (auto simp: length_insert_desc)

lemma sorted_insert_desc:
  "sorted_wrt (\<lambda>a b. bson_le (get b key PNone) (get a key PNone)) xs \<Longrightarrow>
     sorted_wrt (\<lambda>a b. bson_le (get b key PNone) (get a key PNone)) (insert_desc key doc xs)"
proof (induction xs)
  case Nil
  then show ?case by simp
next
  case (Cons x xs)
  show ?case
  proof (cases "bson_le (get x key PNone) (get doc key PNone)")
    case True
    with Cons.prems show ?thesis
      by (auto intro: bson_le_trans)
  next
    case False
    then have "bson_le (get doc key PNone) (get x key PNone)"
      using bson_le_total by blast
    with False Cons show ?thesis
      by (auto simp: set_insert_desc)
  qed
qed

lemma sorted_sort_desc:
  "sorted_wrt (\<lambda>a b. bson_le (get b key PNone) (get a key PNone)) (sort_desc key docs)"
  by (induction docs) (auto simp: sorted_insert_desc)

lemma set_limit_cursor: "set (limit_cursor n docs) \<subseteq> set docs"
  by (auto simp: limit_cursor_def dest: in_set_takeD)

lemma length_limit_cursor: "1 \<le> n \<Longrightarrow> length (limit_cursor n docs) = min (nat n) (length docs)"
  by (simp add: limit_cursor_def)

lemma sorted_limit_cursor: "sorted_wrt R docs \<Longrightarrow> sorted_wrt R (limit_cursor n docs)"
  by (simp add: limit_cursor_def sorted_wrt_take)

subsection \<open>The list endpoint\<close>

lemma list_wishes_Inr:
  assumes "list_wishes (Some d) clock limit = (Inr rs, db')"
  shows "db' = Some d"
    and "length rs = length (limit_cursor limit (sort_desc ''created_at'' (wish d)))"
    and "i < length rs \<Longrightarrow>
      wish_dict
        (clock (length (filter (\<lambda>doc. \<not> truthy (get doc ''created_at'' PNone))
           (take i (limit_cursor limit (sort_desc ''created_at'' (wish d)))))))
        (limit_cursor limit (sort_desc ''created_at'' (wish d)) ! i) = Inr (rs ! i)"
proof -
  let ?cursor = "limit_cursor limit (sort_desc ''created_at'' (wish d))"
  from assms have l: "for_doc_in_cursor clock 0 ?cursor [] = Inr rs" and "db' = Some d"
    by (simp_all add: list_wishes_def Let_def)
  then show "db' = Some d" by simp
  from l show len: "length rs = length ?cursor"
    by (rule for_doc_in_cursor_length)
  assume "i < length rs"
  with len have "i < length ?cursor" by simp
  from for_doc_in_cursor_nth [OF l this]
  show "wish_dict
        (clock (length (filter (\<lambda>doc. \<not> truthy (get doc ''created_at'' PNone)) (take i ?cursor))))
        (?cursor ! i) = Inr (rs ! i)"
    by simp
qed

lemma list_wishes_succeeds:
  assumes "\<forall>doc\<in>set (wish d). \<not> truthy (get doc ''created_at'' PNone)
       \<or> (\<exists>t. get doc ''created_at'' PNone = PDatetime t)"
  shows "\<exists>rs. list_wishes (Some d) clock limit = (Inr rs, Some d)"
proof -
  let ?cursor = "limit_cursor limit (sort_desc ''created_at'' (wish d))"
  have "set ?cursor \<subseteq> set (wish d)"
    using set_limit_cursor [of limit "sort_desc ''created_at'' (wish d)"]
    by (simp add: set_sort_desc)
  with assms have "\<forall>doc\<in>set ?cursor. \<not> truthy (get doc ''created_at'' PNone)
       \<or> (\<exists>t. get doc ''created_at'' PNone = PDatetime t)"
    by blast
  from for_doc_in_cursor_succeeds [OF this]
  obtain rs where "for_doc_in_cursor clock 0 ?cursor [] = Inr rs"
    by blast
  then show ?thesis
    by (simp add: list_wishes_def Let_def)
qed

lemma get_api_wishes_Inr:
  assumes "get_api_wishes (Some d) clock p = (Inr ws, db')"
  shows "\<exists>limit rs. Query_limit p = Inr limit
     \<and> list_wishes (Some d) clock limit = (Inr rs, Some d)
     \<and> list_all2 (\<lambda>r w. response_model r = Inr w) rs ws \<and> db' = Some d"
proof -
  from assms obtain limit where q: "Query_limit p = Inr limit"
    by (cases "Query_limit p") (simp_all add: get_api_wishes_def)
  obtain res db'' where lw: "list_wishes (Some d) clock limit = (res, db'')"
    by (cases "list_wishes (Some d) clock limit")
  with assms q obtain rs where rs: "res = Inr rs"
    by (cases res) (simp_all add: get_api_wishes_def)
  from lw rs have db'': "db'' = Some d"
    by (simp add: list_wishes_Inr(1))
  from assms q lw rs db'' have "response_model_list rs = Inr ws" "db' = Some d"
    by (simp_all add: get_api_wishes_def)
  with q lw rs db'' show ?thesis
    by (auto dest: response_model_list_all2)
qed

lemma get_api_wishes_succeeds:
  assumes q: "Query_limit p = Inr limit"
    and c: "\<forall>doc\<in>set (wish d). \<not> truthy (get doc ''created_at'' PNone)
       \<or> (\<exists>t. get doc ''created_at'' PNone = PDatetime t)"
    and t: "\<forall>doc\<in>set (wish d). \<exists>s. get doc ''text'' (PStr []) = PStr s"
  shows "\<exists>ws. get_api_wishes (Some d) clock p = (Inr ws, Some d)"
proof -
  let ?cursor = "limit_cursor limit (sort_desc ''created_at'' (wish d))"
  have sub: "set ?cursor \<subseteq> set (wish d)"
    using set_limit_cursor [of limit "sort_desc ''created_at'' (wish d)"]
    by (simp add: set_sort_desc)
  from list_wishes_succeeds [OF c] obtain rs
    where lw: "list_wishes (Some d) clock limit = (Inr rs, Some d)"
    by blast
  have "\<forall>r\<in>set rs. \<exists>w. response_model r = Inr w"
  proof
    fix r
    assume "r \<in> set rs"
    then obtain i where i: "i < length rs" "rs ! i = r"
      by (auto simp: in_set_conv_nth)
    from list_wishes_Inr(2) [OF lw] i have "?cursor ! i \<in> set ?cursor"
      by simp
    with sub t obtain s where "get (?cursor ! i) ''text'' (PStr []) = PStr s"
      by blast
    from response_model_wish_dict [OF list_wishes_Inr(3) [OF lw i(1)] this] i
    show "\<exists>w. response_model r = Inr w"
      by simp
  qed
  from response_model_list_succeeds [OF this] obtain ws where "response_model_list rs = Inr ws"
    by blast
  with q lw show ?thesis
    by (simp add: get_api_wishes_def)
qed

subsection \<open>ISO strings compare as their datetimes\<close>

lemma length_zpad: "length (zpad k n) = k"
  by (induction k arbitrary: n) simp_all

lemma append_less_same_length:
  "length p = length q \<Longrightarrow> p @ r < q @ s \<longleftrightarrow> p < q \<or> (p = q \<and> r < s)"
  by (induction p q rule: list_induct2) auto

lemma append_le_same_length:
  "length p = length q \<Longrightarrow> p @ r \<le> q @ s \<longleftrightarrow> p < q \<or> (p = q \<and> r \<le> s)"
  by (induction p q rule: list_induct2) auto

lemma div_mod_less:
  fixes a b :: nat
  assumes "a < b"
  shows "a div 10 < b div 10 \<or> (a div 10 = b div 10 \<and> a mod 10 < b mod 10)"
proof (cases "a div 10 = b div 10")
  case True
  have "a div 10 * 10 + a mod 10 < b div 10 * 10 + b mod 10"
    using assms by (simp only: div_mult_mod_eq)
  then have "b div 10 * 10 + a mod 10 < b div 10 * 10 + b mod 10"
    by (simp only: True)
  then have "a mod 10 < b mod 10"
    by (simp only: nat_add_left_cancel_less)
  with True show ?thesis by (simp only: simp_thms)
next
  case False
  moreover from assms have "a div 10 \<le> b div 10"
    by (simp add: div_le_mono)
  ultimately show ?thesis by simp
qed

lemma div_bound:
  fixes b :: nat
  assumes "b < 10 ^ Suc k"
  shows "b div 10 < 10 ^ k"
proof -
  from assms have "b < 10 ^ k * 10"
    by simp
  then show ?thesis
    by (rule less_mult_imp_div_less)
qed

lemma zpad_less: "a < b \<Longrightarrow> b < 10 ^ k \<Longrightarrow> zpad k a < zpad k b"
proof (induction k arbitrary: a b)
  case 0
  then show ?case by simp
next
  case (Suc k)
  from Suc.prems(2) have b: "b div 10 < 10 ^ k"
    by (rule div_bound)
  from Suc.prems(1) have "a div 10 < b div 10 \<or> (a div 10 = b div 10 \<and> a mod 10 < b mod 10)"
    by (rule div_mod_less)
  then show ?case
  proof
    assume "a div 10 < b div 10"
    from Suc.IH [OF this b] show ?thesis
      by (simp add: append_less_same_length length_zpad)
  next
    assume "a div 10 = b div 10 \<and> a mod 10 < b mod 10"
    then show ?thesis
      by (simp add: append_less_same_length length_zpad)
  qed
qed

lemma field_mono:
  fixes t1 t2 :: "'a::order"
  assumes "x2 < 10 ^ k" and "(x1, t1) \<le> (x2, t2)" and "t1 \<le> t2 \<Longrightarrow> r1 \<le> r2"
  shows "zpad k x1 @ r1 \<le> zpad k x2 @ r2"
proof (cases "x1 < x2")
  case True
  from True assms(1) have "zpad k x1 < zpad k x2"
    by (rule zpad_less)
  then show ?thesis
    by (simp add: append_le_same_length length_zpad)
next
  case False
  with assms(2) have "x1 = x2" "t1 \<le> t2"
    by auto
  with assms(3) show ?thesis
    by (simp add: append_le_same_length length_zpad)
qed

lemma fraction_mono:
  assumes "u2 < 10 ^ 6" and "u1 \<le> u2"
  shows "(if u1 = 0 then [] else py ''.'' @ zpad 6 u1)
     \<le> (if u2 = 0 then [] else py ''.'' @ zpad 6 u2)"
proof (cases "u1 = 0")
  case True
  then show ?thesis by simp
next
  case False
  with assms have "u2 \<noteq> 0" "u1 < u2 \<or> u1 = u2"
    by auto
  with False assms(1) show ?thesis
    by (auto simp: py_def dest: zpad_less [of u1 u2 6])
qed

lemma isoformat_sep_mono:
  assumes "valid_datetime b" and "a \<le> b"
  shows "isoformat_sep sep a \<le> isoformat_sep sep b"
proof -
  obtain y1 m1 d1 h1 n1 s1 u1 where a: "a = (y1, m1, d1, h1, n1, s1, u1)"
    by (cases a)
  obtain y2 m2 d2 h2 n2 s2 u2 where b: "b = (y2, m2, d2, h2, n2, s2, u2)"
    by (cases b)
  from assms(1) b have r: "y2 < 10 ^ 4" "m2 < 10 ^ 2" "d2 < 10 ^ 2" "h2 < 10 ^ 2" "n2 < 10 ^ 2"
    "s2 < 10 ^ 2" "u2 < 10 ^ 6"
    by simp_all
  have ab: "(y1, m1, d1, h1, n1, s1, u1) \<le> (y2, m2, d2, h2, n2, s2, u2)"
    using assms(2) unfolding a b .
  have "zpad 4 y1 @ 45 # zpad 2 m1 @ 45 # zpad 2 d1 @ sep # zpad 2 h1 @ 58 # zpad 2 n1 @ 58
          # zpad 2 s1 @ (if u1 = 0 then [] else py ''.'' @ zpad 6 u1)
      \<le> zpad 4 y2 @ 45 # zpad 2 m2 @ 45 # zpad 2 d2 @ sep # zpad 2 h2 @ 58 # zpad 2 n2 @ 58
          # zpad 2 s2 @ (if u2 = 0 then [] else py ''.'' @ zpad 6 u2)"
  proof (rule field_mono [OF r(1) ab])
    assume "(m1, d1, h1, n1, s1, u1) \<le> (m2, d2, h2, n2, s2, u2)"
    then have "zpad 2 m1 @ 45 # zpad 2 d1 @ sep # zpad 2 h1 @ 58 # zpad 2 n1 @ 58
          # zpad 2 s1 @ (if u1 = 0 then [] else py ''.'' @ zpad 6 u1)
      \<le> zpad 2 m2 @ 45 # zpad 2 d2 @ sep # zpad 2 h2 @ 58 # zpad 2 n2 @ 58
          # zpad 2 s2 @ (if u2 = 0 then [] else py ''.'' @ zpad 6 u2)"
    proof (rule field_mono [OF r(2)])
      assume "(d1, h1, n1, s1, u1) \<le> (d2, h2, n2, s2, u2)"
      then have "zpad 2 d1 @ sep # zpad 2 h1 @ 58 # zpad 2 n1 @ 58
          # zpad 2 s1 @ (if u1 = 0 then [] else py ''.'' @ zpad 6 u1)
        \<le> zpad 2 d2 @ sep # zpad 2 h2 @ 58 # zpad 2 n2 @ 58
          # zpad 2 s2 @ (if u2 = 0 then [] else py ''.'' @ zpad 6 u2)"
      proof (rule field_mono [OF r(3)])
        assume "(h1, n1, s1, u1) \<le> (h2, n2, s2, u2)"
        then have "zpad 2 h1 @ 58 # zpad 2 n1 @ 58
            # zpad 2 s1 @ (if u1 = 0 then [] else py ''.'' @ zpad 6 u1)
          \<le> zpad 2 h2 @ 58 # zpad 2 n2 @ 58
            # zpad 2 s2 @ (if u2 = 0 then [] else py ''.'' @ zpad 6 u2)"
        proof (rule field_mono [OF r(4)])
          assume "(n1, s1, u1) \<le> (n2, s2, u2)"
          then have "zpad 2 n1 @ 58 # zpad 2 s1 @ (if u1 = 0 then [] else py ''.'' @ zpad 6 u1)
            \<le> zpad 2 n2 @ 58 # zpad 2 s2 @ (if u2 = 0 then [] else py ''.'' @ zpad 6 u2)"
          proof (rule field_mono [OF r(5)])
            assume "(s1, u1) \<le> (s2, u2)"
            then have "zpad 2 s1 @ (if u1 = 0 then [] else py ''.'' @ zpad 6 u1)
              \<le> zpad 2 s2 @ (if u2 = 0 then [] else py ''.'' @ zpad 6 u2)"
              by (rule field_mono [OF r(6)]) (rule fraction_mono [OF r(7)])
            then show "58 # zpad 2 s1 @ (if u1 = 0 then [] else py ''.'' @ zpad 6 u1)
              \<le> 58 # zpad 2 s2 @ (if u2 = 0 then [] else py ''.'' @ zpad 6 u2)"
              by simp
          qed
          then show "58 # zpad 2 n1 @ 58 # zpad 2 s1 @ (if u1 = 0 then [] else py ''.'' @ zpad 6 u1)
            \<le> 58 # zpad 2 n2 @ 58 # zpad 2 s2 @ (if u2 = 0 then [] else py ''.'' @ zpad 6 u2)"
            by simp
        qed
        then show "sep # zpad 2 h1 @ 58 # zpad 2 n1 @ 58
            # zpad 2 s1 @ (if u1 = 0 then [] else py ''.'' @ zpad 6 u1)
          \<le> sep # zpad 2 h2 @ 58 # zpad 2 n2 @ 58
            # zpad 2 s2 @ (if u2 = 0 then [] else py ''.'' @ zpad 6 u2)"
          by simp
      qed
      then show "45 # zpad 2 d1 @ sep # zpad 2 h1 @ 58 # zpad 2 n1 @ 58
          # zpad 2 s1 @ (if u1 = 0 then [] else py ''.'' @ zpad 6 u1)
        \<le> 45 # zpad 2 d2 @ sep # zpad 2 h2 @ 58 # zpad 2 n2 @ 58
          # zpad 2 s2 @ (if u2 = 0 then [] else py ''.'' @ zpad 6 u2)"
        by simp
    qed
    then show "45 # zpad 2 m1 @ 45 # zpad 2 d1 @ sep # zpad 2 h1 @ 58 # zpad 2 n1 @ 58
          # zpad 2 s1 @ (if u1 = 0 then [] else py ''.'' @ zpad 6 u1)
      \<le> 45 # zpad 2 m2 @ 45 # zpad 2 d2 @ sep # zpad 2 h2 @ 58 # zpad 2 n2 @ 58
          # zpad 2 s2 @ (if u2 = 0 then [] else py ''.'' @ zpad 6 u2)"
      by simp
  qed
  then show ?thesis
    by (simp add: a b py_def del: zpad.simps)
qed

lemma isoformat_mono: "valid_datetime b \<Longrightarrow> a \<le> b \<Longrightarrow> isoformat a \<le> isoformat b"
  by (simp add: isoformat_def isoformat_sep_mono)

subsection \<open>Listed records\<close>

lemma set_cursor: "set (limit_cursor limit (sort_desc key docs)) \<subseteq> set docs"
  using set_limit_cursor [of limit "sort_desc key docs"] by (simp add: set_sort_desc)

lemma snd_list_wishes: "snd (list_wishes db clock limit) = db"
  by (simp add: list_wishes_def Let_def split: option.splits)

lemma snd_get_api_wishes: "snd (get_api_wishes db clock p) = db"
proof (cases "Query_limit p")
  case (Inl e)
  then show ?thesis by (simp add: get_api_wishes_def)
next
  case (Inr limit)
  obtain res db' where lw: "list_wishes db clock limit = (res, db')"
    by (cases "list_wishes db clock limit")
  with snd_list_wishes [of db clock limit] have "db' = db" by simp
  with Inr lw show ?thesis
    by (cases res) (simp_all add: get_api_wishes_def)
qed

lemma get_api_wishes_nth:
  assumes "get_api_wishes (Some d) clock p = (Inr ws, db')" and "Query_limit p = Inr limit"
  shows "length ws = length (limit_cursor limit (sort_desc ''created_at'' (wish d)))"
    and "i < length ws \<Longrightarrow>
      \<exists>r. wish_dict
        (clock (length (filter (\<lambda>doc. \<not> truthy (get doc ''created_at'' PNone))
           (take i (limit_cursor limit (sort_desc ''created_at'' (wish d)))))))
        (limit_cursor limit (sort_desc ''created_at'' (wish d)) ! i) = Inr r
        \<and> response_model r = Inr (ws ! i)"
proof -
  from get_api_wishes_Inr [OF assms(1)] assms(2) obtain rs
    where lw: "list_wishes (Some d) clock limit = (Inr rs, Some d)"
      and all2: "list_all2 (\<lambda>r w. response_model r = Inr w) rs ws"
    by auto
  from all2 have len: "length rs = length ws"
    by (rule list_all2_lengthD)
  with list_wishes_Inr(2) [OF lw]
  show "length ws = length (limit_cursor limit (sort_desc ''created_at'' (wish d)))"
    by simp
  assume i: "i < length ws"
  with len have i': "i < length rs" by simp
  from all2 i' have "response_model (rs ! i) = Inr (ws ! i)"
    by (rule list_all2_nthD)
  with list_wishes_Inr(3) [OF lw i']
  show "\<exists>r. wish_dict
        (clock (length (filter (\<lambda>doc. \<not> truthy (get doc ''created_at'' PNone))
           (take i (limit_cursor limit (sort_desc ''created_at'' (wish d)))))))
        (limit_cursor limit (sort_desc ''created_at'' (wish d)) ! i) = Inr r
        \<and> response_model r = Inr (ws ! i)"
    by blast
qed

lemma response_model_Inr:
  "response_model r = Inr w \<Longrightarrow>
     get r ''id'' PNone = PStr (id' w) \<and> get r ''text'' PNone = PStr (text w)
     \<and> get r ''created_at'' PNone = PStr (created_at w)"
  by (auto simp: response_model_def get_def split: option.splits pyval.splits)

lemma get_api_wishes_dated_nth:
  assumes g: "get_api_wishes (Some d) clock p = (Inr ws, db')" and q: "Query_limit p = Inr limit"
    and i: "i < length ws"
    and t: "get (limit_cursor limit (sort_desc ''created_at'' (wish d)) ! i) ''created_at'' PNone
        = PDatetime t"
  shows "created_at (ws ! i) = isoformat t"
proof -
  from get_api_wishes_nth(2) [OF g q i] obtain r now
    where r: "wish_dict now (limit_cursor limit (sort_desc ''created_at'' (wish d)) ! i) = Inr r"
      and w: "response_model r = Inr (ws ! i)"
    by blast
  from r wish_dict_dated [OF t, of now] have "get r ''created_at'' PNone = PStr (isoformat t)"
    by (auto simp: get_def)
  with response_model_Inr [OF w] show ?thesis by simp
qed

lemma find_one_Some: "find_one coll v = Some doc \<Longrightarrow> doc \<in> set coll \<and> get doc ''_id'' PNone = v"
  by (auto simp: find_one_def find_Some_iff)

lemma create_wish_reread_found:
  assumes "find_one (wish d) (PObjectId oid) = Some doc"
  shows "create_wish_reread d now (str (PObjectId oid)) = wish_dict now doc"
proof -
  from find_one_Some [OF assms] have "get doc ''_id'' PNone = PObjectId oid"
    by simp
  then have "doc \<noteq> []"
    by (auto simp: get_def)
  with assms show ?thesis
    unfolding create_wish_reread_def ObjectId_str by simp
qed

subsection \<open>The example states, evaluated\<close>

lemma sort_dated_db:
  "sort_desc ''created_at'' (wish dated_db) = [doc_untexted, doc_second, doc_first]"
  by (simp add: dated_db_def doc_first_def doc_second_def doc_untexted_def get_def)

lemma sort_mixed_db:
  "sort_desc ''created_at'' (wish mixed_db) = [doc_second, doc_first, doc_undated]"
  by (simp add: mixed_db_def doc_first_def doc_second_def doc_undated_def get_def)

lemma zpad_numeral:
  "zpad (numeral k) n = zpad (pred_numeral k) (n div 10) @ [48 + n mod 10]"
  by (simp only: numeral_eq_Suc zpad.simps)

lemma hexpad_numeral:
  "hexpad (numeral k) n = hexpad (pred_numeral k) (n div 16) @ [hexdigit (n mod 16)]"
  by (simp only: numeral_eq_Suc hexpad.simps)

lemmas eval_simps =
  wish_dict_def get_def isoformat_def py_def zpad_numeral hexpad_numeral hexdigit_def

lemma wish_dict_doc_first:
  "wish_dict now doc_first =
     Inr [(''id'', PStr (id' out_first)), (''text'', PStr (text out_first)),
          (''created_at'', PStr (created_at out_first))]"
  by (simp add: eval_simps doc_first_def out_first_def)

lemma wish_dict_doc_second:
  "wish_dict now doc_second =
     Inr [(''id'', PStr (id' out_second)), (''text'', PStr (text out_second)),
          (''created_at'', PStr (created_at out_second))]"
  by (simp add: eval_simps doc_second_def out_second_def)

lemma wish_dict_doc_untexted:
  "wish_dict now doc_untexted =
     Inr [(''id'', PStr (id' out_untexted)), (''text'', PStr (text out_untexted)),
          (''created_at'', PStr (created_at out_untexted))]"
  by (simp add: eval_simps doc_untexted_def out_untexted_def)

lemma wish_dict_doc_undated:
  "wish_dict now doc_undated =
     Inr [(''id'', PStr (id' out_undated_a)), (''text'', PStr (text out_undated_a)),
          (''created_at'', PStr (isoformat now))]"
  by (simp add: wish_dict_def get_def py_def hexpad_numeral hexdigit_def doc_undated_def
      out_undated_a_def)

lemma response_model_fields:
  "response_model [(''id'', PStr (id' w)), (''text'', PStr (text w)),
      (''created_at'', PStr (created_at w))] = Inr (w::WishOut)"
  by (simp add: response_model_def)

lemma isoformat_clock_a: "isoformat (clock_a 0) = created_at out_undated_a"
  by (simp add: isoformat_def clock_a_def py_def zpad_numeral out_undated_a_def)

lemma isoformat_clock_b: "isoformat (clock_b 0) = created_at out_undated_b"
  by (simp add: isoformat_def clock_b_def py_def zpad_numeral out_undated_b_def)

lemma truthy_created_at_examples:
  "truthy (get doc_first ''created_at'' PNone)"
  "truthy (get doc_second ''created_at'' PNone)"
  "truthy (get doc_untexted ''created_at'' PNone)"
  "\<not> truthy (get doc_undated ''created_at'' PNone)"
  by (simp_all add: get_def doc_first_def doc_second_def doc_untexted_def doc_undated_def)

lemmas listing_simps =
  get_api_wishes_def Query_limit_def list_wishes_def limit_cursor_def sort_dated_db
  sort_mixed_db wish_dict_doc_first wish_dict_doc_second wish_dict_doc_untexted
  wish_dict_doc_undated truthy_created_at_examples response_model_fields

lemma list_dated_db:
  "get_api_wishes (Some dated_db) clock (Some 60) =
     (Inr [out_untexted, out_second, out_first], Some dated_db)"
  by (simp add: listing_simps)

lemma list_dated_db_2:
  "get_api_wishes (Some dated_db) clock (Some 2) = (Inr [out_untexted, out_second], Some dated_db)"
  by (simp add: listing_simps)

lemma list_mixed_db_a:
  "get_api_wishes (Some mixed_db) clock_a (Some 60) =
     (Inr [out_second, out_first, out_undated_a], Some mixed_db)"
  by (simp add: listing_simps isoformat_clock_a)

lemma response_model_undated_b:
  "response_model [(''id'', PStr (id' out_undated_a)), (''text'', PStr (text out_undated_a)),
      (''created_at'', PStr (created_at out_undated_b))] = Inr out_undated_b"
  by (simp add: response_model_def out_undated_a_def out_undated_b_def)

lemma list_mixed_db_b:
  "get_api_wishes (Some mixed_db) clock_b (Some 60) =
     (Inr [out_second, out_first, out_undated_b], Some mixed_db)"
  by (simp add: listing_simps isoformat_clock_b response_model_undated_b)

lemma str_oid_examples:
  "str (PObjectId 3) = id' out_undated_a"
  "str (PObjectId 4) = id' out_untexted"
  by (simp_all add: hexpad_numeral hexdigit_def py_def out_undated_a_def out_untexted_def)

lemma created_at_examples:
  "get doc_first ''created_at'' PNone \<noteq> PNone"
  "get doc_second ''created_at'' PNone \<noteq> PNone"
  "get doc_untexted ''created_at'' PNone \<noteq> PNone"
  "get doc_undated ''created_at'' PNone = PNone"
  by (simp_all add: get_def doc_first_def doc_second_def doc_untexted_def doc_undated_def)

lemma cursor_mixed_db:
  "limit_cursor 60 (sort_desc ''created_at'' (wish mixed_db)) = [doc_second, doc_first, doc_undated]"
  by (simp add: sort_mixed_db limit_cursor_def)

lemma cursor_dated_db:
  "limit_cursor 60 (sort_desc ''created_at'' (wish dated_db)) = [doc_untexted, doc_second, doc_first]"
  by (simp add: sort_dated_db limit_cursor_def)

subsection \<open>Listings of dated documents\<close>

text \<open>
  When every stored document has a \<open>created_at\<close> that is a valid datetime, the
  returned records are in descending order of \<open>created_at\<close>, as ISO strings and as the
  stored datetimes they are formatted from.
\<close>

lemma list_dated_newest_first:
  "(\<forall>doc\<in>set (wish d). \<exists>t. get doc ''created_at'' PNone = PDatetime t \<and> valid_datetime t)
   \<and> get_api_wishes (Some d) clock p = (Inr ws, db') \<longrightarrow>
     sorted_wrt (\<lambda>a b. created_at b \<le> created_at a) ws
     \<and> (\<exists>ts. map created_at ws = map isoformat ts \<and> sorted_wrt (\<lambda>a b. b \<le> a) ts
          \<and> (\<forall>t\<in>set ts. \<exists>doc\<in>set (wish d). get doc ''created_at'' PNone = PDatetime t))"
proof
  assume a: "(\<forall>doc\<in>set (wish d). \<exists>t. get doc ''created_at'' PNone = PDatetime t \<and> valid_datetime t)
   \<and> get_api_wishes (Some d) clock p = (Inr ws, db')"
  then have g: "get_api_wishes (Some d) clock p = (Inr ws, db')" by simp
  from get_api_wishes_Inr [OF g] obtain limit where q: "Query_limit p = Inr limit"
    by blast
  define cursor where "cursor = limit_cursor limit (sort_desc ''created_at'' (wish d))"
  define dt where
    "dt doc = (case get doc ''created_at'' PNone of PDatetime t \<Rightarrow> t | _ \<Rightarrow> (0, 0, 0, 0, 0, 0, 0))"
    for doc
  have len: "length ws = length cursor"
    unfolding cursor_def by (rule get_api_wishes_nth(1) [OF g q])
  have sub: "set cursor \<subseteq> set (wish d)"
    unfolding cursor_def by (rule set_cursor)
  have dated: "get doc ''created_at'' PNone = PDatetime (dt doc) \<and> valid_datetime (dt doc)"
    if "doc \<in> set cursor" for doc
  proof -
    from that sub a obtain t where "get doc ''created_at'' PNone = PDatetime t" "valid_datetime t"
      by blast
    then show ?thesis by (simp add: dt_def)
  qed
  have nth: "created_at (ws ! i) = isoformat (dt (cursor ! i))" if "i < length ws" for i
  proof -
    from that len have "cursor ! i \<in> set cursor" by simp
    from dated [OF this] have "get (cursor ! i) ''created_at'' PNone = PDatetime (dt (cursor ! i))"
      by simp
    from get_api_wishes_dated_nth [OF g q that this [unfolded cursor_def]]
    show ?thesis by (simp add: cursor_def)
  qed
  have srt:
    "sorted_wrt (\<lambda>a b. bson_le (get b ''created_at'' PNone) (get a ''created_at'' PNone)) cursor"
    unfolding cursor_def by (rule sorted_limit_cursor) (rule sorted_sort_desc)
  have ord: "dt (cursor ! j) \<le> dt (cursor ! i)" if "i < j" "j < length cursor" for i j
  proof -
    from srt that have "bson_le (get (cursor ! j) ''created_at'' PNone) (get (cursor ! i) ''created_at'' PNone)"
      by (simp add: sorted_wrt_iff_nth_less)
    moreover from that have "cursor ! i \<in> set cursor" "cursor ! j \<in> set cursor"
      by simp_all
    ultimately show ?thesis
      using dated [of "cursor ! i"] dated [of "cursor ! j"] by simp
  qed
  have s1: "sorted_wrt (\<lambda>a b. created_at b \<le> created_at a) ws"
    unfolding sorted_wrt_iff_nth_less
  proof (intro allI impI)
    fix i j
    assume ij: "i < j" "j < length ws"
    with len have "cursor ! i \<in> set cursor" by simp
    from dated [OF this] have "valid_datetime (dt (cursor ! i))" by simp
    moreover from ij len have "dt (cursor ! j) \<le> dt (cursor ! i)"
      by (simp add: ord)
    ultimately have "isoformat (dt (cursor ! j)) \<le> isoformat (dt (cursor ! i))"
      by (rule isoformat_mono)
    with ij show "created_at (ws ! j) \<le> created_at (ws ! i)"
      by (simp add: nth)
  qed
  have m: "map created_at ws = map isoformat (map dt cursor)"
    by (rule nth_equalityI) (simp_all add: len nth)
  have s2: "sorted_wrt (\<lambda>a b. b \<le> a) (map dt cursor)"
    by (simp add: sorted_wrt_iff_nth_less ord)
  have s3: "\<forall>t\<in>set (map dt cursor). \<exists>doc\<in>set (wish d). get doc ''created_at'' PNone = PDatetime t"
    using dated sub by auto
  from s1 m s2 s3 show "sorted_wrt (\<lambda>a b. created_at b \<le> created_at a) ws
     \<and> (\<exists>ts. map created_at ws = map isoformat ts \<and> sorted_wrt (\<lambda>a b. b \<le> a) ts
          \<and> (\<forall>t\<in>set ts. \<exists>doc\<in>set (wish d). get doc ''created_at'' PNone = PDatetime t))"
    by blast
qed

text \<open>The store of three dated documents, listed newest first.\<close>

lemma list_dated_newest_first_example:
  "get_api_wishes (Some dated_db) clock_a (Some 60) =
     (Inr [out_untexted, out_second, out_first], Some dated_db)
   \<and> created_at out_second \<le> created_at out_untexted
   \<and> created_at out_first \<le> created_at out_untexted
   \<and> created_at out_first \<le> created_at out_second"
proof -
  have e: "get_api_wishes (Some dated_db) clock_a (Some 60) =
      (Inr [out_untexted, out_second, out_first], Some dated_db)"
    by (rule list_dated_db)
  have h: "\<forall>doc\<in>set (wish dated_db).
      \<exists>t. get doc ''created_at'' PNone = PDatetime t \<and> valid_datetime t"
    by (simp add: dated_db_def doc_first_def doc_second_def doc_untexted_def get_def)
  from list_dated_newest_first [of dated_db clock_a "Some 60"
      "[out_untexted, out_second, out_first]" "Some dated_db"] h e
  have "sorted_wrt (\<lambda>a b. created_at b \<le> created_at a) [out_untexted, out_second, out_first]"
    by blast
  with e show ?thesis by simp
qed

section \<open>The claims\<close>

subsection \<open>Creating a wish\<close>

text \<open>
  Claim C1. A create request is rejected with a validation error exactly when its text
  has length 0 or more than 500, so a text is accepted if and only if its length is
  between 1 and 500. On a rejected text the store is returned as it was, whatever it
  is (also when there is none): nothing was read from it or written to it.
\<close>

theorem create_wish_text_length:
  "(fst (post_api_wishes db clock t) = Inl RequestValidationError \<longleftrightarrow>
      length t = 0 \<or> 500 < length t)
   \<and> (length t = 0 \<or> 500 < length t \<longrightarrow> snd (post_api_wishes db clock t) = db)
   \<and> (1 \<le> length t \<and> length t \<le> 500 \<longrightarrow>
        fst (post_api_wishes db clock t) \<noteq> Inl ValidationError)"
proof (cases "length t = 0 \<or> 500 < length t")
  case True
  then have "post_api_wishes db clock t = (Inl RequestValidationError, db)"
    by (simp add: post_api_wishes_def WishCreate_Inl)
  with True show ?thesis by auto
next
  case False
  then have v: "1 \<le> length t" "length t \<le> 500" by (cases t; simp)+
  obtain r db' where cw: "create_wish db clock t = (r, db')"
    by (cases "create_wish db clock t")
  have "fst (post_api_wishes db clock t) \<noteq> Inl RequestValidationError
      \<and> fst (post_api_wishes db clock t) \<noteq> Inl ValidationError"
  proof (cases r)
    case (Inl e)
    with cw v create_wish_valid_error [of t db clock e] show ?thesis
      by (simp add: post_api_wishes_def WishCreate_Inr)
  next
    case (Inr w)
    with cw v show ?thesis
      by (auto simp: post_api_wishes_def WishCreate_Inr dest: response_model_error)
  qed
  with False show ?thesis by auto
qed

text \<open>
  The empty text and a text of 501 characters are rejected and leave the store alone;
  a text of 500 characters is not rejected by either validator.
\<close>

theorem create_wish_text_length_witness:
  "post_api_wishes (Some empty_db) clock_a [] = (Inl RequestValidationError, Some empty_db)
   \<and> post_api_wishes (Some empty_db) clock_a (replicate 501 120) =
       (Inl RequestValidationError, Some empty_db)
   \<and> fst (post_api_wishes (Some empty_db) clock_a (replicate 500 120)) \<noteq> Inl RequestValidationError
   \<and> fst (post_api_wishes (Some empty_db) clock_a (replicate 500 120)) \<noteq> Inl ValidationError"
proof -
  have a: "length ([]::pystr) = 0 \<or> 500 < length ([]::pystr)"
    by simp
  have b: "length (replicate 501 (120::nat)) = 0 \<or> 500 < length (replicate 501 (120::nat))"
    by simp
  have c: "1 \<le> length (replicate 500 (120::nat)) \<and> length (replicate 500 (120::nat)) \<le> 500"
    by simp
  have c': "\<not> (length (replicate 500 (120::nat)) = 0 \<or> 500 < length (replicate 500 (120::nat)))"
    by simp
  from create_wish_text_length [of "Some empty_db" clock_a "[]"] a
  have 1: "post_api_wishes (Some empty_db) clock_a [] = (Inl RequestValidationError, Some empty_db)"
    by (metis prod.collapse)
  from create_wish_text_length [of "Some empty_db" clock_a "replicate 501 120"] b
  have 2: "post_api_wishes (Some empty_db) clock_a (replicate 501 120) =
       (Inl RequestValidationError, Some empty_db)"
    by (metis prod.collapse)
  from create_wish_text_length [of "Some empty_db" clock_a "replicate 500 120"] c c'
  have 3: "fst (post_api_wishes (Some empty_db) clock_a (replicate 500 120)) \<noteq> Inl RequestValidationError
   \<and> fst (post_api_wishes (Some empty_db) clock_a (replicate 500 120)) \<noteq> Inl ValidationError"
    by blast
  from 1 2 3 show ?thesis by blast
qed



text \<open>
  Claim C5 says that a store-unavailable condition and a validation failure both reach
  the caller of \<open>POST /api/wishes\<close> as a 500. An empty text is a validation failure,
  and it is answered with 422, with or without a store.
\<close>

theorem create_wish_statuses_counterexample:
  "status (fst (post_api_wishes (Some empty_db) clock_a [])) = 422
   \<and> status (fst (post_api_wishes None clock_a [])) = 422
   \<and> status (fst (post_api_wishes (Some empty_db) clock_a [])) \<noteq> 500"
  by code_simp

text \<open>
  Claim C5 as amended. A request whose text has 1 to 500 characters and that finds no
  store is answered with 500 (\<open>Database not available\<close>). A request whose text is
  empty or longer than 500 characters fails the request model and is answered with
  422, whatever the store. A failure of the schema check inside the handler body leaves
  the handler as an unhandled exception, which is a 500.
\<close>

theorem create_wish_statuses:
  "(1 \<le> length t \<and> length t \<le> 500 \<longrightarrow>
      post_api_wishes None clock t = (Inl (HTTPException 500 (py ''Database not available'')), None)
      \<and> status (fst (post_api_wishes None clock t)) = 500)
   \<and> (length t = 0 \<or> 500 < length t \<longrightarrow>
        fst (post_api_wishes db clock t) = Inl RequestValidationError
        \<and> status (fst (post_api_wishes db clock t)) = 422)
   \<and> (Wish t = Inl e \<longrightarrow>
        fst (create_wish (Some d) clock t) = Inl e \<and> status (fst (create_wish (Some d) clock t)) = 500)"
proof (intro conjI impI)
  assume v: "1 \<le> length t \<and> length t \<le> 500"
  then show a: "post_api_wishes None clock t =
      (Inl (HTTPException 500 (py ''Database not available'')), None)"
    by (simp add: post_api_wishes_def WishCreate_Inr create_wish_def)
  show "status (fst (post_api_wishes None clock t)) = 500"
    by (simp add: a status_def)
next
  assume i: "length t = 0 \<or> 500 < length t"
  then show b: "fst (post_api_wishes db clock t) = Inl RequestValidationError"
    by (simp add: post_api_wishes_def WishCreate_Inl)
  show "status (fst (post_api_wishes db clock t)) = 422"
    by (simp add: b status_def)
next
  assume w: "Wish t = Inl e"
  then have e: "e = ValidationError"
    by (simp add: Wish_def split: if_splits)
  from w show c: "fst (create_wish (Some d) clock t) = Inl e"
    by (simp add: create_wish_def)
  show "status (fst (create_wish (Some d) clock t)) = 500"
    by (simp add: c e status_def)
qed

text \<open>
  A valid text without a store, the empty text with a store, and the handler body run
  on the empty text.
\<close>

theorem create_wish_statuses_witness:
  "post_api_wishes None clock_a (py ''world peace'') =
     (Inl (HTTPException 500 (py ''Database not available'')), None)
   \<and> status (fst (post_api_wishes None clock_a (py ''world peace''))) = 500
   \<and> fst (post_api_wishes (Some empty_db) clock_a []) = Inl RequestValidationError
   \<and> status (fst (post_api_wishes (Some empty_db) clock_a [])) = 422
   \<and> fst (create_wish (Some empty_db) clock_a []) = Inl ValidationError
   \<and> status (fst (create_wish (Some empty_db) clock_a [])) = 500"
proof -
  have h1: "1 \<le> length (py ''world peace'') \<and> length (py ''world peace'') \<le> 500"
    by code_simp
  have h2: "length ([]::pystr) = 0 \<or> 500 < length ([]::pystr)"
    by simp
  have h3: "Wish [] = Inl ValidationError"
    by code_simp
  from create_wish_statuses [of "py ''world peace''" clock_a] h1
  have 1: "post_api_wishes None clock_a (py ''world peace'') =
     (Inl (HTTPException 500 (py ''Database not available'')), None)
   \<and> status (fst (post_api_wishes None clock_a (py ''world peace''))) = 500"
    by blast
  from create_wish_statuses [of "[]" clock_a "Some empty_db" ValidationError empty_db] h2 h3
  have 2: "fst (post_api_wishes (Some empty_db) clock_a []) = Inl RequestValidationError
   \<and> status (fst (post_api_wishes (Some empty_db) clock_a [])) = 422
   \<and> fst (create_wish (Some empty_db) clock_a []) = Inl ValidationError
   \<and> status (fst (create_wish (Some empty_db) clock_a [])) = 500"
    by blast
  from 1 2 show ?thesis by blast
qed

text \<open>
  Claim C6 says that without a store every create request is rejected with
  \<open>StoreUnavailable\<close>, valid text or not. A request with an empty text and no store is
  rejected by the request model instead, before the handler body and its store check
  run.
\<close>

theorem store_check_first_counterexample:
  "post_api_wishes None clock_a [] = (Inl RequestValidationError, None)
   \<and> post_api_wishes None clock_a [] \<noteq> (Inl (HTTPException 500 (py ''Database not available'')), None)"
  by code_simp

text \<open>
  Claim C6 as amended. The handler body checks the store first: run without a store it
  fails with \<open>Database not available\<close> whatever the text, before the schema check and
  before any insert. At the endpoint the request model comes before the handler: without
  a store, a request with a text of 1 to 500 characters is rejected with
  \<open>Database not available\<close>, and a request with an empty or too long text with a
  validation error.
\<close>

theorem store_check_first:
  "create_wish None clock t = (Inl (HTTPException 500 (py ''Database not available'')), None)
   \<and> (1 \<le> length t \<and> length t \<le> 500 \<longrightarrow>
        post_api_wishes None clock t =
          (Inl (HTTPException 500 (py ''Database not available'')), None))
   \<and> (length t = 0 \<or> 500 < length t \<longrightarrow>
        post_api_wishes None clock t = (Inl RequestValidationError, None))"
proof (intro conjI impI)
  show body: "create_wish None clock t =
      (Inl (HTTPException 500 (py ''Database not available'')), None)"
    by (simp add: create_wish_def)
  assume "1 \<le> length t \<and> length t \<le> 500"
  then have "WishCreate t = Inr t"
    by (simp add: WishCreate_Inr)
  then show "post_api_wishes None clock t =
      (Inl (HTTPException 500 (py ''Database not available'')), None)"
    by (simp add: post_api_wishes_def body)
next
  assume "length t = 0 \<or> 500 < length t"
  then have "WishCreate t = Inl ValidationError"
    by (rule WishCreate_Inl)
  then show "post_api_wishes None clock t = (Inl RequestValidationError, None)"
    by (simp add: post_api_wishes_def)
qed

text \<open>
  Without a store: the handler body on the empty text, the endpoint on a valid text and
  on a text of 501 characters.
\<close>

theorem store_check_first_witness:
  "create_wish None clock_a [] = (Inl (HTTPException 500 (py ''Database not available'')), None)
   \<and> post_api_wishes None clock_a (py ''world peace'') =
       (Inl (HTTPException 500 (py ''Database not available'')), None)
   \<and> post_api_wishes None clock_a (replicate 501 120) = (Inl RequestValidationError, None)"
proof -
  have h1: "1 \<le> length (py ''world peace'') \<and> length (py ''world peace'') \<le> 500"
    by code_simp
  have h2: "length (replicate 501 (120::nat)) = 0 \<or> 500 < length (replicate 501 (120::nat))"
    by simp
  from store_check_first [of clock_a "[]"]
       store_check_first [of clock_a "py ''world peace''"] h1
       store_check_first [of clock_a "replicate 501 120"] h2
  show ?thesis by blast
qed

subsection \<open>Diagnostics\<close>

text \<open>
  Claim C9. \<open>test_database\<close> returns a response for every state of \<open>db\<close> and of the
  environment; no exception leaves it. The two environment fields depend on the
  environment alone. Without a store the \<open>database\<close> field says so. With a store, a
  failure of \<open>list_collection_names()\<close> is caught: it turns the \<open>database\<close> field into
  a description of the error (its first 50 characters) and leaves \<open>collections\<close> empty,
  while \<open>connection_status\<close> still reports the connection.
\<close>

theorem test_database_never_raises:
  "\<exists>r. test_database db getenv = Inr r
     \<and> backend r = check_mark @ py '' Running''
     \<and> database_url r =
         Some (if getenv_truthy getenv ''DATABASE_URL'' then check_mark @ py '' Set''
               else cross_mark @ py '' Not Set'')
     \<and> database_name r =
         Some (if getenv_truthy getenv ''DATABASE_NAME'' then check_mark @ py '' Set''
               else cross_mark @ py '' Not Set'')
     \<and> (db = None \<longrightarrow>
          database r = warning_sign @ py ''  Available but not initialized''
          \<and> connection_status r = py ''Not Connected'' \<and> collections r = [])
     \<and> (\<forall>d names. db = Some d \<and> list_collection_names d = Inr names \<longrightarrow>
          database r = check_mark @ py '' Connected & Working''
          \<and> connection_status r = py ''Connected'' \<and> collections r = take 10 names)
     \<and> (\<forall>d e. db = Some d \<and> list_collection_names d = Inl e \<longrightarrow>
          database r = warning_sign @ py ''  Connected but Error: '' @ take 50 (str_exn e)
          \<and> connection_status r = py ''Connected'' \<and> collections r = [])"
proof (cases db)
  case None
  then show ?thesis
    by (simp add: test_database_def database_try_def database_body_def)
next
  case (Some d)
  show ?thesis
  proof (cases "list_collection_names d")
    case (Inl e)
    with Some show ?thesis
      by (simp add: test_database_def database_try_def database_body_def
          list_collections_try_def list_collections_body_def)
  next
    case (Inr names)
    with Some show ?thesis
      by (simp add: test_database_def database_try_def database_body_def
          list_collections_try_def list_collections_body_def)
  qed
qed

text \<open>
  A store whose driver refuses the connection, in an empty environment.
\<close>

theorem test_database_never_raises_witness:
  "\<exists>r. test_database (Some broken_db) no_env = Inr r
     \<and> database r = [9888, 65039] @ py ''  Connected but Error: connection refused''
     \<and> connection_status r = py ''Connected''
     \<and> collections r = []
     \<and> database_url r = Some ([10060] @ py '' Not Set'')
     \<and> database_name r = Some ([10060] @ py '' Not Set'')"
proof -
  have l: "list_collection_names broken_db = Inl (Exception (py ''connection refused''))"
    by (simp add: broken_db_def)
  have t: "take 50 (str_exn (Exception (py ''connection refused''))) = py ''connection refused''"
    by code_simp
  have g: "\<not> getenv_truthy no_env ''DATABASE_URL''" "\<not> getenv_truthy no_env ''DATABASE_NAME''"
    by (simp_all add: getenv_truthy_def no_env_def)
  from test_database_never_raises [of "Some broken_db" no_env] l
  obtain r where "test_database (Some broken_db) no_env = Inr r"
    "database r = warning_sign @ py ''  Connected but Error: ''
       @ take 50 (str_exn (Exception (py ''connection refused'')))"
    "connection_status r = py ''Connected''" "collections r = []"
    "database_url r =
         Some (if getenv_truthy no_env ''DATABASE_URL'' then check_mark @ py '' Set''
               else cross_mark @ py '' Not Set'')"
    "database_name r =
         Some (if getenv_truthy no_env ''DATABASE_NAME'' then check_mark @ py '' Set''
               else cross_mark @ py '' Not Set'')"
    by blast
  then show ?thesis
    by (simp add: t g warning_sign_def cross_mark_def py_def)
qed

subsection \<open>Listing wishes\<close>

text \<open>
  Claim C3. For a limit from 1 to 200, a list request that succeeds returns at most
  \<open>limit\<close> records: with a store, exactly the smaller of \<open>limit\<close> and the number of
  stored documents. A limit below 1 or above 200 is rejected with a validation error
  whatever the store is, also when there is none: the store is not consulted, and the
  limit is not clamped. A request without a limit is a request with limit 60.
\<close>

theorem list_wishes_limit:
  "(1 \<le> n \<and> n \<le> 200 \<longrightarrow>
      (\<forall>ws db'. get_api_wishes db clock (Some n) = (Inr ws, db') \<longrightarrow>
         int (length ws) \<le> n
         \<and> (\<forall>d. db = Some d \<longrightarrow> length ws = min (nat n) (length (wish d)))))
   \<and> (n < 1 \<or> 200 < n \<longrightarrow>
        get_api_wishes db clock (Some n) = (Inl RequestValidationError, db))
   \<and> get_api_wishes db clock None = get_api_wishes db clock (Some 60)"
proof (intro conjI impI allI)
  fix ws db'
  assume n: "1 \<le> n \<and> n \<le> 200"
    and g: "get_api_wishes db clock (Some n) = (Inr ws, db')"
  from n have q: "Query_limit (Some n) = Inr n"
    by (simp add: Query_limit_def)
  have len: "length ws = min (nat n) (length (wish d))" if "db = Some d" for d
  proof -
    from get_api_wishes_nth(1) [OF g [unfolded that] q] n show ?thesis
      by (simp add: length_limit_cursor length_sort_desc)
  qed
  show "int (length ws) \<le> n"
  proof (cases db)
    case None
    with g q show ?thesis
      by (simp add: get_api_wishes_def list_wishes_def)
  next
    case (Some d)
    from len [OF this] have "length ws \<le> nat n" by simp
    with n show ?thesis by linarith
  qed
  fix d
  assume "db = Some d"
  then show "length ws = min (nat n) (length (wish d))"
    by (rule len)
next
  assume "n < 1 \<or> 200 < n"
  then show "get_api_wishes db clock (Some n) = (Inl RequestValidationError, db)"
    by (auto simp: get_api_wishes_def Query_limit_def)
next
  show "get_api_wishes db clock None = get_api_wishes db clock (Some 60)"
    by (simp add: get_api_wishes_def Query_limit_def)
qed

text \<open>
  Limit 2 on the store of three dated documents; limit 0 with a store; limit 201
  without a store; no limit.
\<close>

theorem list_wishes_limit_witness:
  "get_api_wishes (Some dated_db) clock_a (Some 2) = (Inr [out_untexted, out_second], Some dated_db)
   \<and> int (length [out_untexted, out_second]) \<le> 2
   \<and> length [out_untexted, out_second] = min (nat 2) (length (wish dated_db))
   \<and> get_api_wishes (Some dated_db) clock_a (Some 0) = (Inl RequestValidationError, Some dated_db)
   \<and> get_api_wishes None clock_a (Some 201) = (Inl RequestValidationError, None)
   \<and> get_api_wishes (Some dated_db) clock_a None = get_api_wishes (Some dated_db) clock_a (Some 60)"
proof -
  have e: "get_api_wishes (Some dated_db) clock_a (Some 2) =
      (Inr [out_untexted, out_second], Some dated_db)"
    by (rule list_dated_db_2)
  have h: "(1::int) \<le> 2 \<and> (2::int) \<le> 200" "(0::int) < 1 \<or> 200 < (0::int)"
    "(201::int) < 1 \<or> 200 < (201::int)"
    by simp_all
  from list_wishes_limit [of 2 "Some dated_db" clock_a] h(1) e
  have 1: "int (length [out_untexted, out_second]) \<le> 2
     \<and> length [out_untexted, out_second] = min (nat 2) (length (wish dated_db))"
    by blast
  from list_wishes_limit [of 0 "Some dated_db" clock_a] h(2)
  have 2: "get_api_wishes (Some dated_db) clock_a (Some 0) =
      (Inl RequestValidationError, Some dated_db)"
    by blast
  from list_wishes_limit [of 201 None clock_a] h(3)
  have 3: "get_api_wishes None clock_a (Some 201) = (Inl RequestValidationError, None)"
    by blast
  from list_wishes_limit [of 2 "Some dated_db" clock_a]
  have 4: "get_api_wishes (Some dated_db) clock_a None =
      get_api_wishes (Some dated_db) clock_a (Some 60)"
    by blast
  from e 1 2 3 4 show ?thesis by blast
qed

text \<open>
  Claim C4. The returned sequence is to be ordered newest first: of any two returned
  records, the earlier one in the list has the greater or equal \<open>created_at\<close>. The
  handler says so itself (the comment at line 123, and the descending sort on
  \<open>created_at\<close>), and does not achieve it: the store sorts a document without
  \<open>created_at\<close> last, and line 119 then stamps its record with the time of the
  request. On the mixed example store, listed with limit 60, the record of 2020 comes
  before the record stamped 2026.
\<close>

theorem list_wishes_newest_first_failing_input:
  "get_api_wishes (Some mixed_db) clock_a (Some 60) =
     (Inr [out_second, out_first, out_undated_a], Some mixed_db)
   \<and> created_at out_first < created_at out_undated_a"
  by (simp add: list_mixed_db_a) (simp add: out_first_def out_undated_a_def py_def)

text \<open>
  Claim C8 says that two consecutive list calls on the same store state and with the
  same limit return the same records. A document without \<open>created_at\<close> is stamped with
  the time of each call: listed a minute apart, the mixed example store gives two
  different records for it.
\<close>

theorem list_wishes_read_only_counterexample:
  "get_api_wishes (Some mixed_db) clock_a (Some 60) =
     (Inr [out_second, out_first, out_undated_a], Some mixed_db)
   \<and> get_api_wishes (Some mixed_db) clock_b (Some 60) =
     (Inr [out_second, out_first, out_undated_b], Some mixed_db)
   \<and> created_at out_undated_a \<noteq> created_at out_undated_b"
  by (simp add: list_mixed_db_a list_mixed_db_b) (simp add: out_undated_a_def out_undated_b_def py_def)

text \<open>
  Claim C8 as amended. A list call leaves the store as it was. When every stored
  document has a \<open>created_at\<close> value, two list calls on the same store state with the
  same limit return the same result, whenever they are made.
\<close>

theorem list_wishes_read_only:
  "snd (get_api_wishes db clock p) = db
   \<and> ((\<forall>doc\<in>set (wish d). truthy (get doc ''created_at'' PNone)) \<longrightarrow>
        get_api_wishes (Some d) clock p = get_api_wishes (Some d) clock' p)"
proof (intro conjI impI)
  show "snd (get_api_wishes db clock p) = db"
    by (rule snd_get_api_wishes)
next
  assume a: "\<forall>doc\<in>set (wish d). truthy (get doc ''created_at'' PNone)"
  have "list_wishes (Some d) clock limit = list_wishes (Some d) clock' limit" for limit
  proof -
    from a set_cursor [of limit "''created_at''" "wish d"]
    have "\<forall>doc\<in>set (limit_cursor limit (sort_desc ''created_at'' (wish d))).
        truthy (get doc ''created_at'' PNone)"
      by blast
    from for_doc_in_cursor_clock [OF this] show ?thesis
      by (simp add: list_wishes_def Let_def)
  qed
  then show "get_api_wishes (Some d) clock p = get_api_wishes (Some d) clock' p"
    by (cases "Query_limit p") (simp_all add: get_api_wishes_def)
qed

text \<open>
  The mixed store is unchanged by a list call; the store of dated documents lists the
  same a minute later.
\<close>

theorem list_wishes_read_only_witness:
  "snd (get_api_wishes (Some mixed_db) clock_a (Some 60)) = Some mixed_db
   \<and> get_api_wishes (Some dated_db) clock_a (Some 60) =
       get_api_wishes (Some dated_db) clock_b (Some 60)"
proof -
  have h: "\<forall>doc\<in>set (wish dated_db). truthy (get doc ''created_at'' PNone)"
    by (simp add: dated_db_def doc_first_def doc_second_def doc_untexted_def get_def)
  from list_wishes_read_only [of "Some mixed_db" clock_a "Some 60" dated_db clock_b] h
  show ?thesis by blast
qed

subsection \<open>Missing fields\<close>

text \<open>
  Claim C7. A stored document without a \<open>created_at\<close> value (the key is absent, or
  holds \<open>None\<close>) is mapped with the current time in its place, and the mapping does
  not fail. In \<open>create_wish\<close>: when the re-read finds such a document, the handler
  returns its record with the clock reading, in ISO format. In \<open>list_wishes\<close>: on a store
  whose documents each have a datetime or no value as \<open>created_at\<close>, the handler
  returns one record for every document of the cursor, and the record of a document
  without a value carries the clock reading taken for it (one reading for each such
  document, in the cursor's order).
\<close>

theorem missing_created_at_defaults_to_now:
  "(find_one (wish d) (PObjectId oid) = Some doc \<and> get doc ''created_at'' PNone = PNone \<longrightarrow>
      create_wish_reread d now (str (PObjectId oid)) =
        Inr [(''id'', PStr (str (PObjectId oid))), (''text'', get doc ''text'' (PStr [])),
             (''created_at'', PStr (isoformat now))])
   \<and> ((\<forall>doc\<in>set (wish d). get doc ''created_at'' PNone = PNone
           \<or> (\<exists>t. get doc ''created_at'' PNone = PDatetime t)) \<longrightarrow>
        (let cursor = limit_cursor limit (sort_desc ''created_at'' (wish d))
         in \<exists>rs. list_wishes (Some d) clock limit = (Inr rs, Some d)
              \<and> length rs = length cursor
              \<and> (\<forall>i<length rs. get (cursor ! i) ''created_at'' PNone = PNone \<longrightarrow>
                    get (rs ! i) ''created_at'' PNone =
                      PStr (isoformat (clock (length
                        (filter (\<lambda>doc. get doc ''created_at'' PNone = PNone) (take i cursor))))))))"
proof (intro conjI impI)
  assume a: "find_one (wish d) (PObjectId oid) = Some doc \<and> get doc ''created_at'' PNone = PNone"
  then have "get doc ''_id'' PNone = PObjectId oid"
    by (auto dest: find_one_Some)
  with a show "create_wish_reread d now (str (PObjectId oid)) =
        Inr [(''id'', PStr (str (PObjectId oid))), (''text'', get doc ''text'' (PStr [])),
             (''created_at'', PStr (isoformat now))]"
    by (simp add: create_wish_reread_found wish_dict_undated del: str.simps)
next
  assume a: "\<forall>doc\<in>set (wish d). get doc ''created_at'' PNone = PNone
           \<or> (\<exists>t. get doc ''created_at'' PNone = PDatetime t)"
  define cursor where "cursor = limit_cursor limit (sort_desc ''created_at'' (wish d))"
  have sub: "set cursor \<subseteq> set (wish d)"
    unfolding cursor_def by (rule set_cursor)
  from a have "\<forall>doc\<in>set (wish d). \<not> truthy (get doc ''created_at'' PNone)
       \<or> (\<exists>t. get doc ''created_at'' PNone = PDatetime t)"
    by auto
  from list_wishes_succeeds [OF this] obtain rs
    where lw: "list_wishes (Some d) clock limit = (Inr rs, Some d)"
    by blast
  have len: "length rs = length cursor"
    unfolding cursor_def by (rule list_wishes_Inr(2) [OF lw])
  have undated: "(\<not> truthy (get doc ''created_at'' PNone)) = (get doc ''created_at'' PNone = PNone)"
    if "doc \<in> set cursor" for doc
    using that sub a by auto
  have nth: "get (rs ! i) ''created_at'' PNone =
      PStr (isoformat (clock (length
        (filter (\<lambda>doc. get doc ''created_at'' PNone = PNone) (take i cursor)))))"
    if i: "i < length rs" and n: "get (cursor ! i) ''created_at'' PNone = PNone" for i
  proof -
    have "filter (\<lambda>doc. \<not> truthy (get doc ''created_at'' PNone)) (take i cursor) =
        filter (\<lambda>doc. get doc ''created_at'' PNone = PNone) (take i cursor)"
      by (rule filter_cong) (auto dest: in_set_takeD simp: undated)
    with list_wishes_Inr(3) [OF lw i]
    have w: "wish_dict
        (clock (length (filter (\<lambda>doc. get doc ''created_at'' PNone = PNone) (take i cursor))))
        (cursor ! i) = Inr (rs ! i)"
      by (simp add: cursor_def)
    from n have "\<not> truthy (get (cursor ! i) ''created_at'' PNone)"
      by simp
    from wish_dict_undated [OF this] w
    have "rs ! i =
        [(''id'', PStr (str (get (cursor ! i) ''_id'' PNone))),
         (''text'', get (cursor ! i) ''text'' (PStr [])),
         (''created_at'', PStr (isoformat (clock (length
            (filter (\<lambda>doc. get doc ''created_at'' PNone = PNone) (take i cursor))))))]"
      by simp
    then show ?thesis
      by (simp add: get_def)
  qed
  from lw len nth show "let cursor = limit_cursor limit (sort_desc ''created_at'' (wish d))
         in \<exists>rs. list_wishes (Some d) clock limit = (Inr rs, Some d)
              \<and> length rs = length cursor
              \<and> (\<forall>i<length rs. get (cursor ! i) ''created_at'' PNone = PNone \<longrightarrow>
                    get (rs ! i) ''created_at'' PNone =
                      PStr (isoformat (clock (length
                        (filter (\<lambda>doc. get doc ''created_at'' PNone = PNone) (take i cursor))))))"
    unfolding Let_def cursor_def by blast
qed

text \<open>
  The undated example document, re-read by its identifier and listed with the mixed
  store: it is listed third with the first clock reading.
\<close>

theorem missing_created_at_defaults_to_now_witness:
  "create_wish_reread mixed_db (clock_a 0) (id' out_undated_a) =
     Inr [(''id'', PStr (id' out_undated_a)), (''text'', PStr (text out_undated_a)),
          (''created_at'', PStr (created_at out_undated_a))]
   \<and> (\<exists>rs. list_wishes (Some mixed_db) clock_a 60 = (Inr rs, Some mixed_db)
         \<and> length rs = 3
         \<and> get (rs ! 2) ''created_at'' PNone = PStr (created_at out_undated_a))"
proof -
  have h1: "find_one (wish mixed_db) (PObjectId 3) = Some doc_undated
      \<and> get doc_undated ''created_at'' PNone = PNone"
    by (simp add: find_one_def mixed_db_def doc_first_def doc_second_def doc_undated_def get_def)
  have h2: "\<forall>doc\<in>set (wish mixed_db). get doc ''created_at'' PNone = PNone
           \<or> (\<exists>t. get doc ''created_at'' PNone = PDatetime t)"
    by (simp add: mixed_db_def doc_first_def doc_second_def doc_undated_def get_def)
  have t: "get doc_undated ''text'' (PStr []) = PStr (text out_undated_a)"
    by (simp add: doc_undated_def out_undated_a_def get_def)
  from missing_created_at_defaults_to_now [of mixed_db 3 doc_undated "clock_a 0" 60 clock_a] h1
  have 1: "create_wish_reread mixed_db (clock_a 0) (id' out_undated_a) =
     Inr [(''id'', PStr (id' out_undated_a)), (''text'', PStr (text out_undated_a)),
          (''created_at'', PStr (created_at out_undated_a))]"
    by (simp only: str_oid_examples t isoformat_clock_a simp_thms)
  from missing_created_at_defaults_to_now [of mixed_db 3 doc_undated "clock_a 0" 60 clock_a] h2
  obtain rs where rs: "list_wishes (Some mixed_db) clock_a 60 = (Inr rs, Some mixed_db)"
      "length rs = length [doc_second, doc_first, doc_undated]"
      "\<forall>i<length rs. get ([doc_second, doc_first, doc_undated] ! i) ''created_at'' PNone = PNone \<longrightarrow>
          get (rs ! i) ''created_at'' PNone =
            PStr (isoformat (clock_a (length
              (filter (\<lambda>doc. get doc ''created_at'' PNone = PNone)
                 (take i [doc_second, doc_first, doc_undated])))))"
    unfolding Let_def cursor_mixed_db by blast
  from rs(2) have l: "length rs = 3" by simp
  then have "2 < length rs" by simp
  with rs(3)
  have "get ([doc_second, doc_first, doc_undated] ! 2) ''created_at'' PNone = PNone \<longrightarrow>
      get (rs ! 2) ''created_at'' PNone =
        PStr (isoformat (clock_a (length
          (filter (\<lambda>doc. get doc ''created_at'' PNone = PNone)
             (take 2 [doc_second, doc_first, doc_undated])))))"
    by blast
  then have "get (rs ! 2) ''created_at'' PNone = PStr (created_at out_undated_a)"
    by (simp add: created_at_examples isoformat_clock_a)
  with 1 rs(1) l show ?thesis by blast
qed

text \<open>
  Claim C10. A stored document without the key \<open>text\<close> is mapped with the empty
  string as its text, and neither the mapping nor the response model fails on it. In
  \<open>create_wish\<close>: when the re-read finds such a document, the returned record has the
  text \<open>""\<close>. In \<open>GET /api/wishes\<close>: on a store whose documents each have a string or
  no \<open>text\<close> key, the request succeeds and the record of every document without the
  key has the text \<open>""\<close>, which a created wish never has.
\<close>

theorem missing_text_defaults_to_empty:
  "(find_one (wish d) (PObjectId oid) = Some doc \<and> map_of doc ''text'' = None
      \<and> (get doc ''created_at'' PNone = PNone \<or> (\<exists>t. get doc ''created_at'' PNone = PDatetime t)) \<longrightarrow>
      (\<exists>r w. create_wish_reread d now (str (PObjectId oid)) = Inr r
         \<and> get r ''text'' PNone = PStr [] \<and> response_model r = Inr w \<and> text w = []))
   \<and> (Query_limit p = Inr limit
        \<and> (\<forall>doc\<in>set (wish d).
              (get doc ''created_at'' PNone = PNone \<or> (\<exists>t. get doc ''created_at'' PNone = PDatetime t))
              \<and> (map_of doc ''text'' = None \<or> (\<exists>s. map_of doc ''text'' = Some (PStr s)))) \<longrightarrow>
        (let cursor = limit_cursor limit (sort_desc ''created_at'' (wish d))
         in \<exists>ws. get_api_wishes (Some d) clock p = (Inr ws, Some d)
              \<and> length ws = length cursor
              \<and> (\<forall>i<length ws. map_of (cursor ! i) ''text'' = None \<longrightarrow> text (ws ! i) = [])))"
proof (intro conjI impI)
  assume a: "find_one (wish d) (PObjectId oid) = Some doc \<and> map_of doc ''text'' = None
      \<and> (get doc ''created_at'' PNone = PNone \<or> (\<exists>t. get doc ''created_at'' PNone = PDatetime t))"
  then have t: "get doc ''text'' (PStr []) = PStr []"
    by (simp add: get_def)
  from a obtain r where r: "wish_dict now doc = Inr r"
    by (auto simp: wish_dict_undated wish_dict_dated)
  from response_model_wish_dict [OF r t]
  obtain w where w: "response_model r = Inr w" "text w = []"
    by simp
  from response_model_Inr [OF w(1)] w(2) have g: "get r ''text'' PNone = PStr []"
    by simp
  from a r have "create_wish_reread d now (str (PObjectId oid)) = Inr r"
    by (simp add: create_wish_reread_found del: str.simps)
  with g w show "\<exists>r w. create_wish_reread d now (str (PObjectId oid)) = Inr r
         \<and> get r ''text'' PNone = PStr [] \<and> response_model r = Inr w \<and> text w = []"
    by blast
next
  assume a: "Query_limit p = Inr limit
        \<and> (\<forall>doc\<in>set (wish d).
              (get doc ''created_at'' PNone = PNone \<or> (\<exists>t. get doc ''created_at'' PNone = PDatetime t))
              \<and> (map_of doc ''text'' = None \<or> (\<exists>s. map_of doc ''text'' = Some (PStr s))))"
  then have q: "Query_limit p = Inr limit" by simp
  define cursor where "cursor = limit_cursor limit (sort_desc ''created_at'' (wish d))"
  from a have c: "\<forall>doc\<in>set (wish d). \<not> truthy (get doc ''created_at'' PNone)
       \<or> (\<exists>t. get doc ''created_at'' PNone = PDatetime t)"
    by auto
  from a have t: "\<forall>doc\<in>set (wish d). \<exists>s. get doc ''text'' (PStr []) = PStr s"
    by (auto simp: get_def)
  from get_api_wishes_succeeds [OF q c t] obtain ws
    where g: "get_api_wishes (Some d) clock p = (Inr ws, Some d)"
    by blast
  have len: "length ws = length cursor"
    unfolding cursor_def by (rule get_api_wishes_nth(1) [OF g q])
  have nth: "text (ws ! i) = []" if i: "i < length ws" and n: "map_of (cursor ! i) ''text'' = None"
    for i
  proof -
    from get_api_wishes_nth(2) [OF g q i] obtain r now
      where r: "wish_dict now (cursor ! i) = Inr r" and w: "response_model r = Inr (ws ! i)"
      unfolding cursor_def by blast
    from n have "get (cursor ! i) ''text'' (PStr []) = PStr []"
      by (simp add: get_def)
    from response_model_wish_dict [OF r this] w show ?thesis
      by simp
  qed
  from g len nth show "let cursor = limit_cursor limit (sort_desc ''created_at'' (wish d))
         in \<exists>ws. get_api_wishes (Some d) clock p = (Inr ws, Some d)
              \<and> length ws = length cursor
              \<and> (\<forall>i<length ws. map_of (cursor ! i) ''text'' = None \<longrightarrow> text (ws ! i) = [])"
    unfolding Let_def cursor_def by blast
qed

text \<open>
  The example document without \<open>text\<close>, re-read by its identifier and listed first
  with the store of dated documents.
\<close>

theorem missing_text_defaults_to_empty_witness:
  "(\<exists>r w. create_wish_reread dated_db (clock_a 0) (id' out_untexted) = Inr r
         \<and> get r ''text'' PNone = PStr [] \<and> response_model r = Inr w \<and> text w = [])
   \<and> (\<exists>ws. get_api_wishes (Some dated_db) clock_a (Some 60) = (Inr ws, Some dated_db)
         \<and> length ws = 3 \<and> text (ws ! 0) = [])"
proof -
  have h1: "find_one (wish dated_db) (PObjectId 4) = Some doc_untexted
      \<and> map_of doc_untexted ''text'' = None
      \<and> (get doc_untexted ''created_at'' PNone = PNone
          \<or> (\<exists>t. get doc_untexted ''created_at'' PNone = PDatetime t))"
    by (simp add: find_one_def dated_db_def doc_first_def doc_second_def doc_untexted_def get_def)
  have h2: "Query_limit (Some 60) = Inr 60
        \<and> (\<forall>doc\<in>set (wish dated_db).
              (get doc ''created_at'' PNone = PNone \<or> (\<exists>t. get doc ''created_at'' PNone = PDatetime t))
              \<and> (map_of doc ''text'' = None \<or> (\<exists>s. map_of doc ''text'' = Some (PStr s))))"
    by (simp add: Query_limit_def dated_db_def doc_first_def doc_second_def doc_untexted_def get_def)
  from missing_text_defaults_to_empty
    [of dated_db 4 doc_untexted "clock_a 0" "Some 60" 60 clock_a] h1
  have 1: "\<exists>r w. create_wish_reread dated_db (clock_a 0) (id' out_untexted) = Inr r
         \<and> get r ''text'' PNone = PStr [] \<and> response_model r = Inr w \<and> text w = []"
    by (simp only: str_oid_examples simp_thms)
  from missing_text_defaults_to_empty
    [of dated_db 4 doc_untexted "clock_a 0" "Some 60" 60 clock_a] h2
  obtain ws where ws: "get_api_wishes (Some dated_db) clock_a (Some 60) = (Inr ws, Some dated_db)"
      "length ws = length [doc_untexted, doc_second, doc_first]"
      "\<forall>i<length ws. map_of ([doc_untexted, doc_second, doc_first] ! i) ''text'' = None \<longrightarrow>
          text (ws ! i) = []"
    unfolding Let_def cursor_dated_db by blast
  from ws(2) have l: "length ws = 3" by simp
  then have "0 < length ws" by simp
  with ws(3)
  have "map_of ([doc_untexted, doc_second, doc_first] ! 0) ''text'' = None \<longrightarrow> text (ws ! 0) = []"
    by blast
  with h1 have "text (ws ! 0) = []"
    by simp
  with 1 ws(1) l show ?thesis by blast
qed

end
